theory Spec2Isabelle
  imports Main "HOL-Library.Word"
begin

section \<open>Python bindings of GDRCopy: the handle lifecycle over a black-box native library\<close>

text \<open>
  The development embeds \<^verbatim>\<open>python/build/lib/gdrcopy/gdrcopy.py\<close>: the classes
  \<^verbatim>\<open>GDRError\<close>, \<^verbatim>\<open>GDRHandle\<close> and \<^verbatim>\<open>GDRCopy\<close>, the helper
  \<^verbatim>\<open>_check_error\<close> and the module function \<^verbatim>\<open>get_driver_version\<close>.

  The native library behind \<^verbatim>\<open>_lib\<close> is not Python code of the module. It enters the
  model as a parameter: a record of functions over an arbitrary driver state, each taking
  the Python values the wrapper passes and returning what the wrapper reads back (the C
  return value and the contents of the out-parameters allocated with \<^verbatim>\<open>ffi.new\<close>).
  Between the wrapper and a native function stands the binding, which converts every
  argument to its declared C type before the function is entered and raises
  \<^verbatim>\<open>TypeError\<close> or \<^verbatim>\<open>OverflowError\<close> itself when a conversion fails; then the
  native function is not called. Every native function that is entered is appended to a
  trace, so that "no driver operation is performed" is a statement about the trace.
\<close>

subsection \<open>C values seen from Python\<close>

text \<open>
  Pointers (\<^verbatim>\<open>gdr_t\<close>, \<^verbatim>\<open>void *\<close>) are 64-bit words with \<open>0\<close> for \<^verbatim>\<open>NULL\<close>;
  \<^verbatim>\<open>gdr_mh_t\<close> is the struct with the single field \<^verbatim>\<open>unsigned long h\<close>. A Python
  attribute that holds either \<^verbatim>\<open>None\<close> or such a value is an \<open>option\<close>.
\<close>

type_synonym gdr_t = "64 word"
type_synonym void_ptr = "64 word"
type_synonym gdr_mh_t = "64 word"

record gdr_info_v2_t =
  info_va :: "64 word"
  info_mapped_size :: "64 word"
  info_page_size :: "32 word"
  info_tm_cycles :: "64 word"
  info_cycles_per_ms :: "32 word"
  info_mapped :: "1 word"
  info_wc_mapping :: "1 word"
  info_mapping_type :: "32 word"

text \<open>
  Truth value of a Python attribute in a condition: \<^verbatim>\<open>None\<close> is false, a pointer
  object is true unless it is \<^verbatim>\<open>NULL\<close>, a struct object is always true.
\<close>

definition truthy_ptr :: "64 word option \<Rightarrow> bool" where
  "truthy_ptr v = (case v of None \<Rightarrow> False | Some p \<Rightarrow> p \<noteq> 0)"

definition truthy_struct :: "gdr_mh_t option \<Rightarrow> bool" where
  "truthy_struct v = (case v of None \<Rightarrow> False | Some m \<Rightarrow> True)"

subsection \<open>The native library as a parameter\<close>

record 'd driver =
  gdr_open :: "'d \<Rightarrow> gdr_t \<times> 'd"
  gdr_close :: "gdr_t option \<Rightarrow> 'd \<Rightarrow> int \<times> 'd"
  gdr_pin_buffer :: "gdr_t option \<Rightarrow> int \<Rightarrow> int \<Rightarrow> int \<Rightarrow> int \<Rightarrow> 'd \<Rightarrow> (int \<times> gdr_mh_t) \<times> 'd"
  gdr_pin_buffer_v2 :: "gdr_t option \<Rightarrow> int \<Rightarrow> int \<Rightarrow> int \<Rightarrow> 'd \<Rightarrow> (int \<times> gdr_mh_t) \<times> 'd"
  gdr_unpin_buffer :: "gdr_t option \<Rightarrow> gdr_mh_t option \<Rightarrow> 'd \<Rightarrow> int \<times> 'd"
  gdr_get_info_v2 :: "gdr_t option \<Rightarrow> gdr_mh_t option \<Rightarrow> 'd \<Rightarrow> (int \<times> gdr_info_v2_t) \<times> 'd"
  gdr_map :: "gdr_t option \<Rightarrow> gdr_mh_t option \<Rightarrow> int \<Rightarrow> 'd \<Rightarrow> (int \<times> void_ptr) \<times> 'd"
  gdr_unmap :: "gdr_t option \<Rightarrow> gdr_mh_t option \<Rightarrow> void_ptr option \<Rightarrow> int \<Rightarrow> 'd \<Rightarrow> int \<times> 'd"
  gdr_copy_to_mapping :: "gdr_mh_t option \<Rightarrow> void_ptr option \<Rightarrow> void_ptr \<Rightarrow> int \<Rightarrow> 'd \<Rightarrow> int \<times> 'd"
  gdr_copy_from_mapping :: "gdr_mh_t option \<Rightarrow> void_ptr \<Rightarrow> void_ptr option \<Rightarrow> int \<Rightarrow> 'd \<Rightarrow> int \<times> 'd"
  gdr_driver_get_version :: "gdr_t option \<Rightarrow> 'd \<Rightarrow> (int \<times> int \<times> int) \<times> 'd"
  gdr_get_attribute :: "gdr_t option \<Rightarrow> int \<Rightarrow> 'd \<Rightarrow> (int \<times> int) \<times> 'd"

datatype native_call =
    Call_open
  | Call_close "gdr_t option"
  | Call_pin_buffer "gdr_t option" int int int int
  | Call_pin_buffer_v2 "gdr_t option" int int int
  | Call_unpin_buffer "gdr_t option" "gdr_mh_t option"
  | Call_get_info_v2 "gdr_t option" "gdr_mh_t option"
  | Call_map "gdr_t option" "gdr_mh_t option" int
  | Call_unmap "gdr_t option" "gdr_mh_t option" "void_ptr option" int
  | Call_copy_to_mapping "gdr_mh_t option" "void_ptr option" void_ptr int
  | Call_copy_from_mapping "gdr_mh_t option" void_ptr "void_ptr option" int
  | Call_driver_get_version "gdr_t option"
  | Call_get_attribute "gdr_t option" int

record 'd world =
  drv_state :: 'd
  trace :: "native_call list"

text \<open>One invocation of a bound function: the driver state steps, the call is logged.\<close>

definition invoke :: "native_call \<Rightarrow> ('d \<Rightarrow> 'r \<times> 'd) \<Rightarrow> 'd world \<Rightarrow> 'r \<times> 'd world" where
  "invoke c f w =
     (let (r, s) = f (drv_state w)
      in (r, \<lparr>drv_state = s, trace = trace w @ [c]\<rparr>))"

subsection \<open>Exceptions\<close>

text \<open>Python's \<^verbatim>\<open>str\<close> of an integer, used by the f-strings of the error messages.\<close>

function str_nat :: "nat \<Rightarrow> string" where
  "str_nat n =
     (if n < 10 then [''0123456789'' ! n]
      else str_nat (n div 10) @ [''0123456789'' ! (n mod 10)])"
  by pat_completeness auto
termination
  by (relation "measure (\<lambda>n. n)") auto

definition str_int :: "int \<Rightarrow> string" where
  "str_int i = (if i < 0 then CHR ''-'' # str_nat (nat (- i)) else str_nat (nat i))"

text \<open>
  The module raises two kinds of exception: the built-in \<^verbatim>\<open>RuntimeError\<close> with a
  message, and its own \<^verbatim>\<open>GDRError\<close> carrying a code and a message. Two more come
  out of the binding when an argument does not convert: \<^verbatim>\<open>TypeError\<close> and
  \<^verbatim>\<open>OverflowError\<close>; their messages are the binding's and are left out.
\<close>

datatype exn =
    RuntimeError string
  | GDRError int string
  | TypeError
  | OverflowError

definition GDRError_init :: "int \<Rightarrow> string \<Rightarrow> exn" where
  "GDRError_init code message =
     GDRError code (if message \<noteq> [] then message else ''GDRCopy error code: '' @ str_int code)"

definition check_error :: "int \<Rightarrow> string \<Rightarrow> exn + unit" where
  "check_error ret msg =
     (if ret \<noteq> 0
      then Inl (GDRError_init ret (msg @ '' (error code: '' @ str_int ret @ '')''))
      else Inr ())"

text \<open>
  The spec names error conditions, not types. The conditions the module signals with
  \<^verbatim>\<open>RuntimeError\<close> are told apart by their message; the driver-error condition is a
  \<^verbatim>\<open>GDRError\<close> carrying the status code of the failed native call.
\<close>

definition AlreadyOpenError :: exn where
  "AlreadyOpenError = RuntimeError ''GDRCopy is already open''"

definition NotOpenError :: exn where
  "NotOpenError = RuntimeError ''GDRCopy is not open''"

definition AlreadyMappedError :: exn where
  "AlreadyMappedError = RuntimeError ''Buffer is already mapped''"

definition NotMappedError :: exn where
  "NotMappedError = RuntimeError ''Buffer is not mapped''"

definition DriverError :: "int \<Rightarrow> string \<Rightarrow> exn" where
  "DriverError code what =
     GDRError code (what @ '' (error code: '' @ str_int code @ '')'')"

subsection \<open>The binding: argument conversion\<close>

text \<open>
  The C declarations give each parameter its type. An argument for a pointer parameter
  (\<^verbatim>\<open>gdr_t\<close>, \<^verbatim>\<open>void *\<close>) or for the struct parameter \<^verbatim>\<open>gdr_mh_t\<close> must be
  an object of that C type: \<^verbatim>\<open>None\<close> raises \<^verbatim>\<open>TypeError\<close>. A Python integer for an
  unsigned parameter of \<open>bits\<close> bits (\<^verbatim>\<open>size_t\<close>, \<^verbatim>\<open>unsigned long\<close> and
  \<^verbatim>\<open>uint64_t\<close> with 64, \<^verbatim>\<open>uint32_t\<close> and the enum \<^verbatim>\<open>gdr_attr_t\<close> with 32) must
  lie in \<open>0 \<le> n < 2 ^ bits\<close>: otherwise \<^verbatim>\<open>OverflowError\<close>. The out-parameters are
  freshly allocated by \<^verbatim>\<open>ffi.new\<close>, and the result of \<^verbatim>\<open>ffi.cast\<close> is a pointer:
  they always convert. Arguments are converted from left to right, the first failure is
  raised, and only when all converted is the native function entered.
\<close>

datatype c_arg =
    Pointer_arg "64 word option"
  | Struct_arg "gdr_mh_t option"
  | Unsigned_arg nat int

definition fits_unsigned :: "nat \<Rightarrow> int \<Rightarrow> bool" where
  "fits_unsigned bits n \<longleftrightarrow> 0 \<le> n \<and> n < 2 ^ bits"

fun convert_arg :: "c_arg \<Rightarrow> exn option" where
  "convert_arg (Pointer_arg None) = Some TypeError"
| "convert_arg (Pointer_arg (Some p)) = None"
| "convert_arg (Struct_arg None) = Some TypeError"
| "convert_arg (Struct_arg (Some m)) = None"
| "convert_arg (Unsigned_arg bits n) = (if fits_unsigned bits n then None else Some OverflowError)"

fun convert_args :: "c_arg list \<Rightarrow> exn option" where
  "convert_args [] = None"
| "convert_args (a # as) =
     (case convert_arg a of Some e \<Rightarrow> Some e | None \<Rightarrow> convert_args as)"

definition call_native ::
  "c_arg list \<Rightarrow> native_call \<Rightarrow> ('d \<Rightarrow> 'r \<times> 'd) \<Rightarrow> 'd world \<Rightarrow> (exn + 'r) \<times> 'd world" where
  "call_native args c f w =
     (case convert_args args of
        Some e \<Rightarrow> (Inl e, w)
      | None \<Rightarrow> (case invoke c f w of (r, w') \<Rightarrow> (Inr r, w')))"

subsection \<open>The Device Context: class \<^verbatim>\<open>GDRCopy\<close>\<close>

text \<open>
  The attribute \<^verbatim>\<open>_handle\<close> is \<^verbatim>\<open>None\<close> or the pointer returned by
  \<^verbatim>\<open>gdr_open\<close>. \<^verbatim>\<open>__init__\<close> assigns it unconditionally, so the
  \<^verbatim>\<open>hasattr\<close> tests of the methods are always true and are not modelled.
  A method takes the object and the world and returns its outcome (\<open>Inl\<close> a raised
  exception, \<open>Inr\<close> the returned value) with the object and the world as it leaves them.
  \<^verbatim>\<open>gdr_open\<close> has no parameter, and \<^verbatim>\<open>close\<close> passes \<^verbatim>\<open>self._handle\<close> only
  after its guard found it true, that is a non-null pointer: in these two methods no
  conversion can fail.
\<close>

record GDRCopy =
  c_handle :: "gdr_t option"

definition GDRCopy_init :: GDRCopy where
  "GDRCopy_init = \<lparr>c_handle = None\<rparr>"

definition GDRCopy_open ::
  "'d driver \<Rightarrow> GDRCopy \<Rightarrow> 'd world \<Rightarrow> (exn + unit) \<times> GDRCopy \<times> 'd world" where
  "GDRCopy_open D g w =
     (if truthy_ptr (c_handle g)
      then (Inl (RuntimeError ''GDRCopy is already open''), g, w)
      else
        (let (p, w') = invoke Call_open (gdr_open D) w;
             g' = g\<lparr>c_handle := Some p\<rparr>
         in if \<not> truthy_ptr (c_handle g')
            then (Inl (GDRError_init (- 1) ''Failed to open GDRCopy''), g', w')
            else (Inr (), g', w')))"

definition GDRCopy_close ::
  "'d driver \<Rightarrow> GDRCopy \<Rightarrow> 'd world \<Rightarrow> (exn + unit) \<times> GDRCopy \<times> 'd world" where
  "GDRCopy_close D g w =
     (if truthy_ptr (c_handle g)
      then
        (let (ret, w') = invoke (Call_close (c_handle g)) (gdr_close D (c_handle g)) w;
             g' = g\<lparr>c_handle := None\<rparr>
         in (check_error ret ''Failed to close GDRCopy'', g', w'))
      else (Inr (), g, w))"

definition GDRCopy_del ::
  "'d driver \<Rightarrow> GDRCopy \<Rightarrow> 'd world \<Rightarrow> (exn + unit) \<times> GDRCopy \<times> 'd world" where
  "GDRCopy_del D g w = GDRCopy_close D g w"

subsection \<open>The Buffer Handle: class \<^verbatim>\<open>GDRHandle\<close>\<close>

text \<open>
  \<^verbatim>\<open>_handle\<close> is \<^verbatim>\<open>None\<close> or the \<^verbatim>\<open>gdr_mh_t\<close> struct written by the pin
  call, \<^verbatim>\<open>_mapped_ptr\<close> is \<^verbatim>\<open>None\<close> or the pointer written by \<^verbatim>\<open>gdr_map\<close>,
  \<^verbatim>\<open>_mapped_size\<close> is a Python integer, \<^verbatim>\<open>_info\<close> is \<^verbatim>\<open>None\<close> or the
  dictionary built by \<^verbatim>\<open>get_info\<close>. That dictionary always has its six keys, so it
  is a record, and as a non-empty dictionary it is true in a condition.

  \<^verbatim>\<open>_gdr\<close> is a reference to the owning \<^verbatim>\<open>GDRCopy\<close> object, read as
  \<^verbatim>\<open>self._gdr._handle\<close> at the time of each call: a method of the handle takes the
  current state of the owning context as an argument and never changes it.
\<close>

record info_dict =
  d_va :: int
  d_mapped_size :: int
  d_page_size :: int
  d_mapped :: bool
  d_wc_mapping :: bool
  d_mapping_type :: int

record GDRHandle =
  h_handle :: "gdr_mh_t option"
  h_mapped_ptr :: "void_ptr option"
  h_mapped_size :: int
  h_info :: "info_dict option"

definition GDRHandle_init :: "gdr_mh_t \<Rightarrow> GDRHandle" where
  "GDRHandle_init mh =
     \<lparr>h_handle = Some mh, h_mapped_ptr = None, h_mapped_size = 0, h_info = None\<rparr>"

definition GDRHandle_unpin ::
  "'d driver \<Rightarrow> GDRCopy \<Rightarrow> GDRHandle \<Rightarrow> 'd world \<Rightarrow> (exn + unit) \<times> GDRHandle \<times> 'd world" where
  "GDRHandle_unpin D g h w =
     (if truthy_struct (h_handle h)
      then
        (case call_native [Pointer_arg (c_handle g), Struct_arg (h_handle h)]
                (Call_unpin_buffer (c_handle g) (h_handle h))
                (gdr_unpin_buffer D (c_handle g) (h_handle h)) w of
           (Inl e, w') \<Rightarrow> (Inl e, h, w')
         | (Inr ret, w') \<Rightarrow>
             (check_error ret ''Failed to unpin buffer'', h\<lparr>h_handle := None\<rparr>, w'))
      else (Inr (), h, w))"

definition make_info :: "gdr_info_v2_t \<Rightarrow> info_dict" where
  "make_info i =
     \<lparr>d_va = uint (info_va i),
      d_mapped_size = uint (info_mapped_size i),
      d_page_size = uint (info_page_size i),
      d_mapped = (info_mapped i \<noteq> 0),
      d_wc_mapping = (info_wc_mapping i \<noteq> 0),
      d_mapping_type = uint (info_mapping_type i)\<rparr>"

definition GDRHandle_get_info ::
  "'d driver \<Rightarrow> GDRCopy \<Rightarrow> GDRHandle \<Rightarrow> 'd world \<Rightarrow> (exn + info_dict) \<times> GDRHandle \<times> 'd world" where
  "GDRHandle_get_info D g h w =
     (case h_info h of
        Some d \<Rightarrow> (Inr d, h, w)
      | None \<Rightarrow>
          (case call_native [Pointer_arg (c_handle g), Struct_arg (h_handle h)]
                  (Call_get_info_v2 (c_handle g) (h_handle h))
                  (gdr_get_info_v2 D (c_handle g) (h_handle h)) w of
             (Inl e, w') \<Rightarrow> (Inl e, h, w')
           | (Inr (ret, i), w') \<Rightarrow>
               (case check_error ret ''Failed to get info'' of
                  Inl e \<Rightarrow> (Inl e, h, w')
                | Inr u \<Rightarrow> (Inr (make_info i), h\<lparr>h_info := Some (make_info i)\<rparr>, w'))))"

definition GDRHandle_map ::
  "'d driver \<Rightarrow> GDRCopy \<Rightarrow> int \<Rightarrow> GDRHandle \<Rightarrow> 'd world \<Rightarrow> (exn + int) \<times> GDRHandle \<times> 'd world" where
  "GDRHandle_map D g sz h w =
     (if truthy_ptr (h_mapped_ptr h)
      then (Inl (RuntimeError ''Buffer is already mapped''), h, w)
      else
        (case call_native [Pointer_arg (c_handle g), Struct_arg (h_handle h), Unsigned_arg 64 sz]
                (Call_map (c_handle g) (h_handle h) sz)
                (gdr_map D (c_handle g) (h_handle h) sz) w of
           (Inl e, w') \<Rightarrow> (Inl e, h, w')
         | (Inr (ret, p), w') \<Rightarrow>
             (case check_error ret ''Failed to map buffer'' of
                Inl e \<Rightarrow> (Inl e, h, w')
              | Inr u \<Rightarrow>
                  (Inr (uint p), h\<lparr>h_mapped_ptr := Some p, h_mapped_size := sz\<rparr>, w'))))"

definition GDRHandle_unmap ::
  "'d driver \<Rightarrow> GDRCopy \<Rightarrow> GDRHandle \<Rightarrow> 'd world \<Rightarrow> (exn + unit) \<times> GDRHandle \<times> 'd world" where
  "GDRHandle_unmap D g h w =
     (if truthy_ptr (h_mapped_ptr h)
      then
        (case call_native
                [Pointer_arg (c_handle g), Struct_arg (h_handle h), Pointer_arg (h_mapped_ptr h),
                 Unsigned_arg 64 (h_mapped_size h)]
                (Call_unmap (c_handle g) (h_handle h) (h_mapped_ptr h) (h_mapped_size h))
                (gdr_unmap D (c_handle g) (h_handle h) (h_mapped_ptr h) (h_mapped_size h)) w of
           (Inl e, w') \<Rightarrow> (Inl e, h, w')
         | (Inr ret, w') \<Rightarrow>
             (check_error ret ''Failed to unmap buffer'',
              h\<lparr>h_mapped_ptr := None, h_mapped_size := 0\<rparr>, w'))
      else (Inr (), h, w))"

text \<open>
  \<^verbatim>\<open>ffi.cast("void *", host_ptr)\<close> turns the Python integer into a pointer, keeping
  its low 64 bits; a cast does not raise on a large or negative integer. The list of
  arguments to convert leaves this pointer out, since it always converts; the other
  arguments keep their order.
\<close>

definition GDRHandle_copy_to_mapping ::
  "'d driver \<Rightarrow> int \<Rightarrow> int \<Rightarrow> GDRHandle \<Rightarrow> 'd world \<Rightarrow> (exn + unit) \<times> GDRHandle \<times> 'd world" where
  "GDRHandle_copy_to_mapping D host_ptr sz h w =
     (if \<not> truthy_ptr (h_mapped_ptr h)
      then (Inl (RuntimeError ''Buffer is not mapped''), h, w)
      else
        (let h_ptr = (word_of_int host_ptr :: void_ptr)
         in case call_native
                   [Struct_arg (h_handle h), Pointer_arg (h_mapped_ptr h), Unsigned_arg 64 sz]
                   (Call_copy_to_mapping (h_handle h) (h_mapped_ptr h) h_ptr sz)
                   (gdr_copy_to_mapping D (h_handle h) (h_mapped_ptr h) h_ptr sz) w of
              (Inl e, w') \<Rightarrow> (Inl e, h, w')
            | (Inr ret, w') \<Rightarrow> (check_error ret ''Failed to copy to mapping'', h, w')))"

definition GDRHandle_copy_from_mapping ::
  "'d driver \<Rightarrow> int \<Rightarrow> int \<Rightarrow> GDRHandle \<Rightarrow> 'd world \<Rightarrow> (exn + unit) \<times> GDRHandle \<times> 'd world" where
  "GDRHandle_copy_from_mapping D host_ptr sz h w =
     (if \<not> truthy_ptr (h_mapped_ptr h)
      then (Inl (RuntimeError ''Buffer is not mapped''), h, w)
      else
        (let h_ptr = (word_of_int host_ptr :: void_ptr)
         in case call_native
                   [Struct_arg (h_handle h), Pointer_arg (h_mapped_ptr h), Unsigned_arg 64 sz]
                   (Call_copy_from_mapping (h_handle h) h_ptr (h_mapped_ptr h) sz)
                   (gdr_copy_from_mapping D (h_handle h) h_ptr (h_mapped_ptr h) sz) w of
              (Inl e, w') \<Rightarrow> (Inl e, h, w')
            | (Inr ret, w') \<Rightarrow> (check_error ret ''Failed to copy from mapping'', h, w')))"

text \<open>\<^verbatim>\<open>__del__\<close>: \<^verbatim>\<open>self.unmap()\<close>, then \<^verbatim>\<open>self.unpin()\<close>, with no handler around either.\<close>

definition GDRHandle_del ::
  "'d driver \<Rightarrow> GDRCopy \<Rightarrow> GDRHandle \<Rightarrow> 'd world \<Rightarrow> (exn + unit) \<times> GDRHandle \<times> 'd world" where
  "GDRHandle_del D g h w =
     (case GDRHandle_unmap D g h w of
        (Inl e, h', w') \<Rightarrow> (Inl e, h', w')
      | (Inr u, h', w') \<Rightarrow> GDRHandle_unpin D g h' w')"

text \<open>
  When the handle is collected, the interpreter calls \<^verbatim>\<open>__del__\<close> and discards an
  exception that leaves it: nothing is raised to anyone, and the handle and the world
  stay as \<^verbatim>\<open>__del__\<close> left them.
\<close>

definition GDRHandle_collected ::
  "'d driver \<Rightarrow> GDRCopy \<Rightarrow> GDRHandle \<Rightarrow> 'd world \<Rightarrow> GDRHandle \<times> 'd world" where
  "GDRHandle_collected D g h w = snd (GDRHandle_del D g h w)"

subsection \<open>Operations that need the context\<close>

definition GDRCopy_pin_buffer ::
  "'d driver \<Rightarrow> GDRCopy \<Rightarrow> int \<Rightarrow> int \<Rightarrow> int \<Rightarrow> int \<Rightarrow> 'd world \<Rightarrow> (exn + GDRHandle) \<times> 'd world" where
  "GDRCopy_pin_buffer D g addr sz p2p_token va_space w =
     (if \<not> truthy_ptr (c_handle g)
      then (Inl (RuntimeError ''GDRCopy is not open''), w)
      else
        (case call_native
                [Pointer_arg (c_handle g), Unsigned_arg 64 addr, Unsigned_arg 64 sz,
                 Unsigned_arg 64 p2p_token, Unsigned_arg 32 va_space]
                (Call_pin_buffer (c_handle g) addr sz p2p_token va_space)
                (gdr_pin_buffer D (c_handle g) addr sz p2p_token va_space) w of
           (Inl e, w') \<Rightarrow> (Inl e, w')
         | (Inr (ret, mh), w') \<Rightarrow>
             (case check_error ret ''Failed to pin buffer'' of
                Inl e \<Rightarrow> (Inl e, w')
              | Inr u \<Rightarrow> (Inr (GDRHandle_init mh), w'))))"

definition GDR_PIN_FLAG_DEFAULT :: int where
  "GDR_PIN_FLAG_DEFAULT = 0"

definition GDRCopy_pin_buffer_v2 ::
  "'d driver \<Rightarrow> GDRCopy \<Rightarrow> int \<Rightarrow> int \<Rightarrow> int \<Rightarrow> 'd world \<Rightarrow> (exn + GDRHandle) \<times> 'd world" where
  "GDRCopy_pin_buffer_v2 D g addr sz flags w =
     (if \<not> truthy_ptr (c_handle g)
      then (Inl (RuntimeError ''GDRCopy is not open''), w)
      else
        (case call_native
                [Pointer_arg (c_handle g), Unsigned_arg 64 addr, Unsigned_arg 64 sz,
                 Unsigned_arg 32 flags]
                (Call_pin_buffer_v2 (c_handle g) addr sz flags)
                (gdr_pin_buffer_v2 D (c_handle g) addr sz flags) w of
           (Inl e, w') \<Rightarrow> (Inl e, w')
         | (Inr (ret, mh), w') \<Rightarrow>
             (case check_error ret ''Failed to pin buffer (v2)'' of
                Inl e \<Rightarrow> (Inl e, w')
              | Inr u \<Rightarrow> (Inr (GDRHandle_init mh), w'))))"

definition GDRCopy_get_attribute ::
  "'d driver \<Rightarrow> GDRCopy \<Rightarrow> int \<Rightarrow> 'd world \<Rightarrow> (exn + int) \<times> 'd world" where
  "GDRCopy_get_attribute D g attr w =
     (if \<not> truthy_ptr (c_handle g)
      then (Inl (RuntimeError ''GDRCopy is not open''), w)
      else
        (case call_native [Pointer_arg (c_handle g), Unsigned_arg 32 attr]
                (Call_get_attribute (c_handle g) attr)
                (gdr_get_attribute D (c_handle g) attr) w of
           (Inl e, w') \<Rightarrow> (Inl e, w')
         | (Inr (ret, v), w') \<Rightarrow>
             (case check_error ret (''Failed to get attribute '' @ str_int attr) of
                Inl e \<Rightarrow> (Inl e, w')
              | Inr u \<Rightarrow> (Inr v, w'))))"

text \<open>
  The module function \<^verbatim>\<open>get_driver_version(gdr_handle)\<close> reads
  \<^verbatim>\<open>gdr_handle._handle\<close> and passes it on at once, with no test of its own.
\<close>

definition get_driver_version ::
  "'d driver \<Rightarrow> GDRCopy \<Rightarrow> 'd world \<Rightarrow> (exn + int \<times> int) \<times> 'd world" where
  "get_driver_version D g w =
     (case call_native [Pointer_arg (c_handle g)]
             (Call_driver_get_version (c_handle g))
             (gdr_driver_get_version D (c_handle g)) w of
        (Inl e, w') \<Rightarrow> (Inl e, w')
      | (Inr (ret, major, minor), w') \<Rightarrow>
          (case check_error ret ''Failed to get driver version'' of
             Inl e \<Rightarrow> (Inl e, w')
           | Inr u \<Rightarrow> (Inr (major, minor), w')))"

subsection \<open>Callers used in the statements\<close>

text \<open>
  A caller that attempts \<^verbatim>\<open>map\<close> once for each size of a list, catching the outcome
  of each attempt and going on with the handle as the attempt left it.
\<close>

fun map_attempts ::
  "'d driver \<Rightarrow> GDRCopy \<Rightarrow> int list \<Rightarrow> GDRHandle \<Rightarrow> 'd world \<Rightarrow>
     (exn + int) list \<times> GDRHandle \<times> 'd world" where
  "map_attempts D g [] h w = ([], h, w)"
| "map_attempts D g (sz # szs) h w =
     (case GDRHandle_map D g sz h w of
        (r, h', w') \<Rightarrow>
          (case map_attempts D g szs h' w' of
             (rs, h'', w'') \<Rightarrow> (r # rs, h'', w'')))"

text \<open>
  A caller that calls \<^verbatim>\<open>unmap\<close>, respectively \<^verbatim>\<open>unpin\<close>, twice in a row, catching
  the outcome of each call.
\<close>

definition unmap_twice ::
  "'d driver \<Rightarrow> GDRCopy \<Rightarrow> GDRHandle \<Rightarrow> 'd world \<Rightarrow>
     (exn + unit) \<times> (exn + unit) \<times> GDRHandle \<times> 'd world" where
  "unmap_twice D g h w =
     (case GDRHandle_unmap D g h w of
        (r1, h1, w1) \<Rightarrow>
          (case GDRHandle_unmap D g h1 w1 of
             (r2, h2, w2) \<Rightarrow> (r1, r2, h2, w2)))"

definition unpin_twice ::
  "'d driver \<Rightarrow> GDRCopy \<Rightarrow> GDRHandle \<Rightarrow> 'd world \<Rightarrow>
     (exn + unit) \<times> (exn + unit) \<times> GDRHandle \<times> 'd world" where
  "unpin_twice D g h w =
     (case GDRHandle_unpin D g h w of
        (r1, h1, w1) \<Rightarrow>
          (case GDRHandle_unpin D g h1 w1 of
             (r2, h2, w2) \<Rightarrow> (r1, r2, h2, w2)))"

text \<open>
  The scenario of the spec's testable properties, statement by statement: open a fresh
  context, \<^verbatim>\<open>pin_buffer_v2(0x1000, 4096)\<close> with the default flags, \<^verbatim>\<open>get_info()\<close>,
  \<^verbatim>\<open>map(4096)\<close>, \<^verbatim>\<open>get_info()\<close> again, \<^verbatim>\<open>unmap()\<close>, \<^verbatim>\<open>unpin()\<close>,
  \<^verbatim>\<open>close()\<close>. The first exception ends the run; a complete run returns what the two
  \<^verbatim>\<open>get_info\<close> calls and \<^verbatim>\<open>map\<close> returned.
\<close>

definition scenario ::
  "'d driver \<Rightarrow> 'd world \<Rightarrow> exn + (info_dict \<times> int \<times> info_dict)" where
  "scenario D w0 =
     (case GDRCopy_open D GDRCopy_init w0 of
        (Inl e, g1, w1) \<Rightarrow> Inl e
      | (Inr u, g1, w1) \<Rightarrow>
     (case GDRCopy_pin_buffer_v2 D g1 0x1000 4096 GDR_PIN_FLAG_DEFAULT w1 of
        (Inl e, w2) \<Rightarrow> Inl e
      | (Inr h0, w2) \<Rightarrow>
     (case GDRHandle_get_info D g1 h0 w2 of
        (Inl e, h1, w3) \<Rightarrow> Inl e
      | (Inr info1, h1, w3) \<Rightarrow>
     (case GDRHandle_map D g1 4096 h1 w3 of
        (Inl e, h2, w4) \<Rightarrow> Inl e
      | (Inr addr, h2, w4) \<Rightarrow>
     (case GDRHandle_get_info D g1 h2 w4 of
        (Inl e, h3, w5) \<Rightarrow> Inl e
      | (Inr info2, h3, w5) \<Rightarrow>
     (case GDRHandle_unmap D g1 h3 w5 of
        (Inl e, h4, w6) \<Rightarrow> Inl e
      | (Inr u, h4, w6) \<Rightarrow>
     (case GDRHandle_unpin D g1 h4 w6 of
        (Inl e, h5, w7) \<Rightarrow> Inl e
      | (Inr u, h5, w7) \<Rightarrow>
     (case GDRCopy_close D g1 w7 of
        (Inl e, g2, w8) \<Rightarrow> Inl e
      | (Inr u, g2, w8) \<Rightarrow> Inr (info1, addr, info2)))))))))"

subsection \<open>Drivers\<close>

text \<open>A driver all of whose calls made by the scenario and by teardown succeed.\<close>

definition always_succeeds :: "'d driver \<Rightarrow> bool" where
  "always_succeeds D \<longleftrightarrow>
     (\<forall>s. fst (gdr_open D s) \<noteq> 0)
   \<and> (\<forall>g s. fst (gdr_close D g s) = 0)
   \<and> (\<forall>g a n f s. fst (fst (gdr_pin_buffer_v2 D g a n f s)) = 0)
   \<and> (\<forall>g m s. fst (gdr_unpin_buffer D g m s) = 0)
   \<and> (\<forall>g m s. fst (fst (gdr_get_info_v2 D g m s)) = 0)
   \<and> (\<forall>g m n s. fst (fst (gdr_map D g m n s)) = 0)
   \<and> (\<forall>g m p n s. fst (gdr_unmap D g m p n s) = 0)"

text \<open>
  Modelled from the spec: the mock driver "that always succeeds" of the spec's scenario;
  no driver is part of the Python sources. It hands out the context \<open>1\<close> and the pin token
  \<open>1\<close>, maps at a fixed non-null address, remembers whether a mapping is live and its
  size, and answers \<^verbatim>\<open>gdr_get_info_v2\<close> from that memory.
\<close>

record mock_state =
  m_mapped :: bool
  m_size :: int

definition mock_driver :: "mock_state driver" where
  "mock_driver =
     \<lparr>gdr_open = (\<lambda>s. (1, s)),
      gdr_close = (\<lambda>g s. (0, s)),
      gdr_pin_buffer = (\<lambda>g addr sz tok vs s. ((0, 1), s)),
      gdr_pin_buffer_v2 = (\<lambda>g addr sz flags s. ((0, 1), s)),
      gdr_unpin_buffer = (\<lambda>g mh s. (0, s)),
      gdr_get_info_v2 = (\<lambda>g mh s.
         ((0, \<lparr>info_va = 0x1000, info_mapped_size = word_of_int (m_size s),
                info_page_size = 65536, info_tm_cycles = 0, info_cycles_per_ms = 0,
                info_mapped = (if m_mapped s then 1 else 0), info_wc_mapping = 0,
                info_mapping_type = 0\<rparr>), s)),
      gdr_map = (\<lambda>g mh sz s. ((0, 0x7F0000001000), s\<lparr>m_mapped := True, m_size := sz\<rparr>)),
      gdr_unmap = (\<lambda>g mh p sz s. (0, s\<lparr>m_mapped := False, m_size := 0\<rparr>)),
      gdr_copy_to_mapping = (\<lambda>mh mp hp sz s. (0, s)),
      gdr_copy_from_mapping = (\<lambda>mh hp mp sz s. (0, s)),
      gdr_driver_get_version = (\<lambda>g s. ((0, 2, 4), s)),
      gdr_get_attribute = (\<lambda>g attr s. ((0, 0), s))\<rparr>"

definition mock_world :: "mock_state world" where
  "mock_world = \<lparr>drv_state = \<lparr>m_mapped = False, m_size = 0\<rparr>, trace = []\<rparr>"

text \<open>
  Modelled from the spec: the size check of the native copy operations ("size must not
  exceed the mapped size (driver enforces this; violations surface as DriverError)"). The
  native library is not among the sources, and the wrapper passes the size on unchecked.
  \<open>size_checked msize code D\<close> is the driver \<open>D\<close> whose two copy operations answer
  \<open>code\<close>, and do nothing else, when the size exceeds the mapped size \<open>msize\<close> that
  the driver state records.
\<close>

definition size_checked :: "('d \<Rightarrow> int) \<Rightarrow> int \<Rightarrow> 'd driver \<Rightarrow> 'd driver" where
  "size_checked msize code D =
     D\<lparr>gdr_copy_to_mapping :=
          (\<lambda>mh mp hp sz s. if sz > msize s then (code, s)
                            else gdr_copy_to_mapping D mh mp hp sz s),
       gdr_copy_from_mapping :=
          (\<lambda>mh hp mp sz s. if sz > msize s then (code, s)
                            else gdr_copy_from_mapping D mh hp mp sz s)\<rparr>"

text \<open>
  Two more drivers to run the wrapper against: one whose every call fails with the status
  \<open>c\<close> (\<^verbatim>\<open>gdr_open\<close> returns \<^verbatim>\<open>NULL\<close>), and the mock driver with a
  \<^verbatim>\<open>gdr_unmap\<close> that fails with status \<open>5\<close>.
\<close>

definition failing_driver :: "int \<Rightarrow> mock_state driver" where
  "failing_driver c =
     \<lparr>gdr_open = (\<lambda>s. (0, s)),
      gdr_close = (\<lambda>g s. (c, s)),
      gdr_pin_buffer = (\<lambda>g addr sz tok vs s. ((c, 0), s)),
      gdr_pin_buffer_v2 = (\<lambda>g addr sz flags s. ((c, 0), s)),
      gdr_unpin_buffer = (\<lambda>g mh s. (c, s)),
      gdr_get_info_v2 = (\<lambda>g mh s.
         ((c, \<lparr>info_va = 0, info_mapped_size = 0, info_page_size = 0, info_tm_cycles = 0,
                info_cycles_per_ms = 0, info_mapped = 0, info_wc_mapping = 0,
                info_mapping_type = 0\<rparr>), s)),
      gdr_map = (\<lambda>g mh sz s. ((c, 0), s)),
      gdr_unmap = (\<lambda>g mh p sz s. (c, s)),
      gdr_copy_to_mapping = (\<lambda>mh mp hp sz s. (c, s)),
      gdr_copy_from_mapping = (\<lambda>mh hp mp sz s. (c, s)),
      gdr_driver_get_version = (\<lambda>g s. ((c, 0, 0), s)),
      gdr_get_attribute = (\<lambda>g attr s. ((c, 0), s))\<rparr>"

definition unmap_failing_driver :: "mock_state driver" where
  "unmap_failing_driver = mock_driver\<lparr>gdr_unmap := (\<lambda>g mh p sz s. (5, s))\<rparr>"

text \<open>
  The objects these drivers lead to. The context after a successful \<^verbatim>\<open>open\<close>; after
  \<^verbatim>\<open>close\<close>, or never opened (\<^verbatim>\<open>_handle\<close> is \<^verbatim>\<open>None\<close>); and after an
  \<^verbatim>\<open>open\<close> that failed, which has stored the \<^verbatim>\<open>NULL\<close> pointer it raised for. The
  handle after \<^verbatim>\<open>pin_buffer_v2\<close> and \<^verbatim>\<open>map(4096)\<close> with the driver state at that
  point, and the handle after \<^verbatim>\<open>unmap\<close>.
\<close>

definition open_context :: GDRCopy where
  "open_context = \<lparr>c_handle = Some 1\<rparr>"

definition closed_context :: GDRCopy where
  "closed_context = \<lparr>c_handle = None\<rparr>"

definition failed_open_context :: GDRCopy where
  "failed_open_context = \<lparr>c_handle = Some 0\<rparr>"

definition mapped_handle :: GDRHandle where
  "mapped_handle =
     \<lparr>h_handle = Some 1, h_mapped_ptr = Some 0x7F0000001000, h_mapped_size = 4096,
      h_info = None\<rparr>"

definition unmapped_handle :: GDRHandle where
  "unmapped_handle =
     \<lparr>h_handle = Some 1, h_mapped_ptr = None, h_mapped_size = 0, h_info = None\<rparr>"

definition mapped_world :: "mock_state world" where
  "mapped_world = \<lparr>drv_state = \<lparr>m_mapped = True, m_size = 4096\<rparr>, trace = []\<rparr>"

section \<open>What each method does, guard by guard\<close>

lemma invoke_eq:
  "invoke c f w =
     (fst (f (drv_state w)), \<lparr>drv_state = snd (f (drv_state w)), trace = trace w @ [c]\<rparr>)"
  by (simp add: invoke_def split: prod.splits)

lemma call_native_converted:
  "convert_args args = None \<Longrightarrow>
   call_native args c f w =
     (Inr (fst (f (drv_state w))),
      \<lparr>drv_state = snd (f (drv_state w)), trace = trace w @ [c]\<rparr>)"
  by (simp add: call_native_def invoke_eq)

lemma call_native_refused:
  "convert_args args = Some e \<Longrightarrow> call_native args c f w = (Inl e, w)"
  by (simp add: call_native_def)

lemma convert_truthy_ptr: "truthy_ptr v \<Longrightarrow> convert_arg (Pointer_arg v) = None"
  by (cases v) (simp_all add: truthy_ptr_def)

lemma check_error_nonzero:
  "ret \<noteq> 0 \<Longrightarrow> check_error ret msg = Inl (DriverError ret msg)"
  by (simp add: check_error_def GDRError_init_def DriverError_def)

lemma check_error_zero: "check_error 0 msg = Inr ()"
  by (simp add: check_error_def)

lemma DriverError_not_RuntimeError: "DriverError c m \<noteq> RuntimeError t"
  by (simp add: DriverError_def)

lemma truthy_ptr_None: "\<not> truthy_ptr None"
  by (simp add: truthy_ptr_def)

lemma truthy_struct_None: "\<not> truthy_struct None"
  by (simp add: truthy_struct_def)

lemma open_when_open:
  "truthy_ptr (c_handle g) \<Longrightarrow> GDRCopy_open D g w = (Inl AlreadyOpenError, g, w)"
  by (simp add: GDRCopy_open_def AlreadyOpenError_def)

lemma open_when_closed:
  "\<not> truthy_ptr (c_handle g) \<Longrightarrow>
   GDRCopy_open D g w =
     ((if fst (gdr_open D (drv_state w)) \<noteq> 0 then Inr ()
       else Inl (GDRError (- 1) ''Failed to open GDRCopy'')),
      g\<lparr>c_handle := Some (fst (gdr_open D (drv_state w)))\<rparr>,
      \<lparr>drv_state = snd (gdr_open D (drv_state w)), trace = trace w @ [Call_open]\<rparr>)"
  by (simp add: GDRCopy_open_def invoke_eq truthy_ptr_def GDRError_init_def)

lemma close_when_closed:
  "\<not> truthy_ptr (c_handle g) \<Longrightarrow> GDRCopy_close D g w = (Inr (), g, w)"
  by (simp add: GDRCopy_close_def)

lemma close_when_open:
  "truthy_ptr (c_handle g) \<Longrightarrow>
   GDRCopy_close D g w =
     (check_error (fst (gdr_close D (c_handle g) (drv_state w))) ''Failed to close GDRCopy'',
      g\<lparr>c_handle := None\<rparr>,
      \<lparr>drv_state = snd (gdr_close D (c_handle g) (drv_state w)),
       trace = trace w @ [Call_close (c_handle g)]\<rparr>)"
  by (simp add: GDRCopy_close_def invoke_eq)

lemma unpin_when_unpinned:
  "\<not> truthy_struct (h_handle h) \<Longrightarrow> GDRHandle_unpin D g h w = (Inr (), h, w)"
  by (simp add: GDRHandle_unpin_def)

lemma unpin_when_pinned:
  "truthy_struct (h_handle h) \<Longrightarrow> c_handle g = Some c \<Longrightarrow>
   GDRHandle_unpin D g h w =
     (check_error (fst (gdr_unpin_buffer D (c_handle g) (h_handle h) (drv_state w)))
        ''Failed to unpin buffer'',
      h\<lparr>h_handle := None\<rparr>,
      \<lparr>drv_state = snd (gdr_unpin_buffer D (c_handle g) (h_handle h) (drv_state w)),
       trace = trace w @ [Call_unpin_buffer (c_handle g) (h_handle h)]\<rparr>)"
  by (cases "h_handle h")
     (simp_all add: GDRHandle_unpin_def call_native_converted truthy_struct_def)

lemma unpin_owner_closed:
  "truthy_struct (h_handle h) \<Longrightarrow> c_handle g = None \<Longrightarrow>
   GDRHandle_unpin D g h w = (Inl TypeError, h, w)"
  by (simp add: GDRHandle_unpin_def call_native_refused)

lemma unmap_when_unmapped:
  "\<not> truthy_ptr (h_mapped_ptr h) \<Longrightarrow> GDRHandle_unmap D g h w = (Inr (), h, w)"
  by (simp add: GDRHandle_unmap_def)

lemma unmap_when_mapped:
  "truthy_ptr (h_mapped_ptr h) \<Longrightarrow> c_handle g = Some c \<Longrightarrow> h_handle h = Some m \<Longrightarrow>
   fits_unsigned 64 (h_mapped_size h) \<Longrightarrow>
   GDRHandle_unmap D g h w =
     (check_error
        (fst (gdr_unmap D (c_handle g) (h_handle h) (h_mapped_ptr h) (h_mapped_size h) (drv_state w)))
        ''Failed to unmap buffer'',
      h\<lparr>h_mapped_ptr := None, h_mapped_size := 0\<rparr>,
      \<lparr>drv_state =
         snd (gdr_unmap D (c_handle g) (h_handle h) (h_mapped_ptr h) (h_mapped_size h) (drv_state w)),
       trace = trace w @ [Call_unmap (c_handle g) (h_handle h) (h_mapped_ptr h) (h_mapped_size h)]\<rparr>)"
  by (simp add: GDRHandle_unmap_def call_native_converted convert_truthy_ptr)

lemma unmap_owner_closed:
  "truthy_ptr (h_mapped_ptr h) \<Longrightarrow> c_handle g = None \<Longrightarrow>
   GDRHandle_unmap D g h w = (Inl TypeError, h, w)"
  by (simp add: GDRHandle_unmap_def call_native_refused)

lemma unmap_token_gone:
  "truthy_ptr (h_mapped_ptr h) \<Longrightarrow> c_handle g = Some c \<Longrightarrow> h_handle h = None \<Longrightarrow>
   GDRHandle_unmap D g h w = (Inl TypeError, h, w)"
  by (simp add: GDRHandle_unmap_def call_native_refused)

lemma map_when_mapped:
  "truthy_ptr (h_mapped_ptr h) \<Longrightarrow> GDRHandle_map D g sz h w = (Inl AlreadyMappedError, h, w)"
  by (simp add: GDRHandle_map_def AlreadyMappedError_def)

lemma map_when_unmapped:
  "\<not> truthy_ptr (h_mapped_ptr h) \<Longrightarrow> c_handle g = Some c \<Longrightarrow> h_handle h = Some m \<Longrightarrow>
   fits_unsigned 64 sz \<Longrightarrow>
   gdr_map D (c_handle g) (h_handle h) sz (drv_state w) = ((ret, p), s) \<Longrightarrow>
   GDRHandle_map D g sz h w =
     (if ret \<noteq> 0
      then (Inl (DriverError ret ''Failed to map buffer''), h,
            \<lparr>drv_state = s, trace = trace w @ [Call_map (c_handle g) (h_handle h) sz]\<rparr>)
      else (Inr (uint p), h\<lparr>h_mapped_ptr := Some p, h_mapped_size := sz\<rparr>,
            \<lparr>drv_state = s, trace = trace w @ [Call_map (c_handle g) (h_handle h) sz]\<rparr>))"
  by (simp add: GDRHandle_map_def call_native_converted check_error_nonzero check_error_zero)

lemma map_size_out_of_range:
  "\<not> truthy_ptr (h_mapped_ptr h) \<Longrightarrow> c_handle g = Some c \<Longrightarrow> h_handle h = Some m \<Longrightarrow>
   \<not> fits_unsigned 64 sz \<Longrightarrow>
   GDRHandle_map D g sz h w = (Inl OverflowError, h, w)"
  by (simp add: GDRHandle_map_def call_native_refused)

lemma map_never_already_mapped_when_unmapped:
  assumes "\<not> truthy_ptr (h_mapped_ptr h)"
  shows "fst (GDRHandle_map D g sz h w) \<noteq> Inl AlreadyMappedError"
proof (cases "convert_args [Pointer_arg (c_handle g), Struct_arg (h_handle h), Unsigned_arg 64 sz]")
  case None
  then show ?thesis
    using assms
    by (simp add: GDRHandle_map_def call_native_converted check_error_def GDRError_init_def
        AlreadyMappedError_def split: prod.splits)
next
  case (Some e)
  then have "e = TypeError \<or> e = OverflowError"
    by (cases "c_handle g"; cases "h_handle h") (auto split: if_splits)
  with Some assms show ?thesis
    by (auto simp: GDRHandle_map_def call_native_refused AlreadyMappedError_def)
qed

lemma copy_to_when_unmapped:
  "\<not> truthy_ptr (h_mapped_ptr h) \<Longrightarrow>
   GDRHandle_copy_to_mapping D host_ptr sz h w = (Inl NotMappedError, h, w)"
  by (simp add: GDRHandle_copy_to_mapping_def NotMappedError_def)

lemma copy_from_when_unmapped:
  "\<not> truthy_ptr (h_mapped_ptr h) \<Longrightarrow>
   GDRHandle_copy_from_mapping D host_ptr sz h w = (Inl NotMappedError, h, w)"
  by (simp add: GDRHandle_copy_from_mapping_def NotMappedError_def)

lemma copy_to_when_mapped:
  "truthy_ptr (h_mapped_ptr h) \<Longrightarrow> h_handle h = Some m \<Longrightarrow> fits_unsigned 64 sz \<Longrightarrow>
   GDRHandle_copy_to_mapping D host_ptr sz h w =
     (check_error
        (fst (gdr_copy_to_mapping D (h_handle h) (h_mapped_ptr h) (word_of_int host_ptr) sz
                (drv_state w)))
        ''Failed to copy to mapping'',
      h,
      \<lparr>drv_state =
         snd (gdr_copy_to_mapping D (h_handle h) (h_mapped_ptr h) (word_of_int host_ptr) sz
                (drv_state w)),
       trace = trace w @
         [Call_copy_to_mapping (h_handle h) (h_mapped_ptr h) (word_of_int host_ptr) sz]\<rparr>)"
  by (simp add: GDRHandle_copy_to_mapping_def call_native_converted convert_truthy_ptr Let_def)

lemma copy_from_when_mapped:
  "truthy_ptr (h_mapped_ptr h) \<Longrightarrow> h_handle h = Some m \<Longrightarrow> fits_unsigned 64 sz \<Longrightarrow>
   GDRHandle_copy_from_mapping D host_ptr sz h w =
     (check_error
        (fst (gdr_copy_from_mapping D (h_handle h) (word_of_int host_ptr) (h_mapped_ptr h) sz
                (drv_state w)))
        ''Failed to copy from mapping'',
      h,
      \<lparr>drv_state =
         snd (gdr_copy_from_mapping D (h_handle h) (word_of_int host_ptr) (h_mapped_ptr h) sz
                (drv_state w)),
       trace = trace w @
         [Call_copy_from_mapping (h_handle h) (word_of_int host_ptr) (h_mapped_ptr h) sz]\<rparr>)"
  by (simp add: GDRHandle_copy_from_mapping_def call_native_converted convert_truthy_ptr Let_def)

lemma get_info_cached:
  "h_info h = Some d \<Longrightarrow> GDRHandle_get_info D g h w = (Inr d, h, w)"
  by (simp add: GDRHandle_get_info_def)

lemma get_info_uncached:
  "h_info h = None \<Longrightarrow> c_handle g = Some c \<Longrightarrow> h_handle h = Some m \<Longrightarrow>
   gdr_get_info_v2 D (c_handle g) (h_handle h) (drv_state w) = ((ret, i), s) \<Longrightarrow>
   GDRHandle_get_info D g h w =
     (if ret \<noteq> 0
      then (Inl (DriverError ret ''Failed to get info''), h,
            \<lparr>drv_state = s, trace = trace w @ [Call_get_info_v2 (c_handle g) (h_handle h)]\<rparr>)
      else (Inr (make_info i), h\<lparr>h_info := Some (make_info i)\<rparr>,
            \<lparr>drv_state = s, trace = trace w @ [Call_get_info_v2 (c_handle g) (h_handle h)]\<rparr>))"
  by (simp add: GDRHandle_get_info_def call_native_converted check_error_nonzero check_error_zero)

lemma pin_buffer_when_closed:
  "\<not> truthy_ptr (c_handle g) \<Longrightarrow>
   GDRCopy_pin_buffer D g addr sz p2p_token va_space w = (Inl NotOpenError, w)"
  by (simp add: GDRCopy_pin_buffer_def NotOpenError_def)

lemma pin_buffer_v2_when_closed:
  "\<not> truthy_ptr (c_handle g) \<Longrightarrow>
   GDRCopy_pin_buffer_v2 D g addr sz flags w = (Inl NotOpenError, w)"
  by (simp add: GDRCopy_pin_buffer_v2_def NotOpenError_def)

lemma get_attribute_when_closed:
  "\<not> truthy_ptr (c_handle g) \<Longrightarrow> GDRCopy_get_attribute D g attr w = (Inl NotOpenError, w)"
  by (simp add: GDRCopy_get_attribute_def NotOpenError_def)

lemma pin_buffer_v2_when_open:
  "truthy_ptr (c_handle g) \<Longrightarrow> fits_unsigned 64 addr \<Longrightarrow> fits_unsigned 64 sz \<Longrightarrow>
   fits_unsigned 32 flags \<Longrightarrow>
   gdr_pin_buffer_v2 D (c_handle g) addr sz flags (drv_state w) = ((ret, mh), s) \<Longrightarrow>
   GDRCopy_pin_buffer_v2 D g addr sz flags w =
     ((if ret \<noteq> 0 then Inl (DriverError ret ''Failed to pin buffer (v2)'')
       else Inr (GDRHandle_init mh)),
      \<lparr>drv_state = s, trace = trace w @ [Call_pin_buffer_v2 (c_handle g) addr sz flags]\<rparr>)"
  by (simp add: GDRCopy_pin_buffer_v2_def call_native_converted convert_truthy_ptr
      check_error_nonzero check_error_zero)

lemma get_driver_version_with_pointer:
  "c_handle g = Some c \<Longrightarrow>
   gdr_driver_get_version D (c_handle g) (drv_state w) = ((ret, major, minor), s) \<Longrightarrow>
   get_driver_version D g w =
     ((if ret \<noteq> 0 then Inl (DriverError ret ''Failed to get driver version'')
       else Inr (major, minor)),
      \<lparr>drv_state = s, trace = trace w @ [Call_driver_get_version (c_handle g)]\<rparr>)"
  by (simp add: get_driver_version_def call_native_converted check_error_nonzero
      check_error_zero)

lemma get_driver_version_with_None:
  "c_handle g = None \<Longrightarrow> get_driver_version D g w = (Inl TypeError, w)"
  by (simp add: get_driver_version_def call_native_refused)

subsection \<open>Consequences used below\<close>

lemma map_attempts_when_mapped:
  "truthy_ptr (h_mapped_ptr h) \<Longrightarrow>
   map_attempts D g szs h w = (map (\<lambda>sz. Inl AlreadyMappedError) szs, h, w)"
  by (induction szs) (simp_all add: map_when_mapped)

lemma unmap_leaves_unmapped:
  assumes "c_handle g = Some c" and "h_handle h = Some m"
      and "fits_unsigned 64 (h_mapped_size h)"
  shows "\<not> truthy_ptr (h_mapped_ptr (fst (snd (GDRHandle_unmap D g h w))))"
  using assms
  by (cases "truthy_ptr (h_mapped_ptr h)")
     (simp_all add: unmap_when_mapped unmap_when_unmapped truthy_ptr_None)

lemma get_info_keeps_cache:
  assumes "GDRHandle_get_info D g h w = (Inr d, h1, w1)"
  shows "h_info h1 = Some d"
proof (cases "h_info h")
  case None
  from assms None show ?thesis
    by (auto simp: GDRHandle_get_info_def split: prod.splits sum.splits)
next
  case (Some d')
  with assms show ?thesis by (simp add: get_info_cached)
qed

lemma map_keeps_info: "h_info (fst (snd (GDRHandle_map D g sz h w))) = h_info h"
  by (auto simp: GDRHandle_map_def split: prod.splits sum.splits)

lemma get_info_after_map_is_cached:
  assumes "GDRHandle_get_info D g h w = (Inr d, h1, w1)"
      and "GDRHandle_map D g sz h1 w1 = (r, h2, w2)"
  shows "GDRHandle_get_info D g h2 w2 = (Inr d, h2, w2)"
proof -
  from assms(1) have "h_info h1 = Some d" by (rule get_info_keeps_cache)
  moreover from assms(2) have "h_info h2 = h_info h1"
    using map_keeps_info [of D g sz h1 w1] by simp
  ultimately show ?thesis by (simp add: get_info_cached)
qed

lemma closed_context_guards:
  assumes "\<not> truthy_ptr (c_handle g)"
  shows "GDRCopy_pin_buffer D g addr sz p2p_token va_space w = (Inl NotOpenError, w)"
    and "GDRCopy_pin_buffer_v2 D g addr sz flags w = (Inl NotOpenError, w)"
    and "GDRCopy_get_attribute D g attr w = (Inl NotOpenError, w)"
  using assms
  by (simp_all add: pin_buffer_when_closed pin_buffer_v2_when_closed get_attribute_when_closed)

subsection \<open>Against a driver that always succeeds\<close>

lemma mock_always_succeeds: "always_succeeds mock_driver"
  by (simp add: always_succeeds_def mock_driver_def)

lemma open_fresh_succeeds:
  assumes "always_succeeds D"
  shows "\<exists>p s. p \<noteq> 0 \<and> GDRCopy_open D GDRCopy_init w =
           (Inr (), \<lparr>c_handle = Some p\<rparr>,
            \<lparr>drv_state = s, trace = trace w @ [Call_open]\<rparr>)"
proof -
  obtain p s where o: "gdr_open D (drv_state w) = (p, s)"
    by (metis prod.exhaust)
  from assms have "fst (gdr_open D (drv_state w)) \<noteq> 0"
    by (simp add: always_succeeds_def)
  with o have "p \<noteq> 0" by simp
  with o have "GDRCopy_open D GDRCopy_init w =
      (Inr (), \<lparr>c_handle = Some p\<rparr>, \<lparr>drv_state = s, trace = trace w @ [Call_open]\<rparr>)"
    by (simp add: open_when_closed GDRCopy_init_def truthy_ptr_None)
  with \<open>p \<noteq> 0\<close> show ?thesis by blast
qed

lemma pin_v2_succeeds:
  assumes "always_succeeds D" and "truthy_ptr (c_handle g)"
      and "fits_unsigned 64 addr" and "fits_unsigned 64 sz" and "fits_unsigned 32 flags"
  shows "\<exists>mh w'. GDRCopy_pin_buffer_v2 D g addr sz flags w = (Inr (GDRHandle_init mh), w')"
proof -
  obtain ret mh s where o: "gdr_pin_buffer_v2 D (c_handle g) addr sz flags (drv_state w) = ((ret, mh), s)"
    by (metis prod.exhaust)
  from assms(1) have "fst (fst (gdr_pin_buffer_v2 D (c_handle g) addr sz flags (drv_state w))) = 0"
    by (simp add: always_succeeds_def)
  with o have "ret = 0" by simp
  with o assms(2-5) show ?thesis
    by (auto simp: pin_buffer_v2_when_open)
qed

lemma get_info_succeeds:
  assumes "always_succeeds D" and "c_handle g = Some c" and "h_handle h = Some m"
  shows "\<exists>d h' w'. GDRHandle_get_info D g h w = (Inr d, h', w')
           \<and> h_handle h' = h_handle h \<and> h_mapped_ptr h' = h_mapped_ptr h
           \<and> h_mapped_size h' = h_mapped_size h"
proof (cases "h_info h")
  case None
  obtain ret i s where o: "gdr_get_info_v2 D (c_handle g) (h_handle h) (drv_state w) = ((ret, i), s)"
    by (metis prod.exhaust)
  from assms(1) have "fst (fst (gdr_get_info_v2 D (c_handle g) (h_handle h) (drv_state w))) = 0"
    by (simp add: always_succeeds_def)
  with o have "ret = 0" by simp
  with o None assms(2,3) show ?thesis
    by (simp add: get_info_uncached)
next
  case (Some d)
  then show ?thesis by (simp add: get_info_cached)
qed

lemma map_succeeds:
  assumes "always_succeeds D" and "\<not> truthy_ptr (h_mapped_ptr h)"
      and "c_handle g = Some c" and "h_handle h = Some m" and "fits_unsigned 64 sz"
  shows "\<exists>a h' w'. GDRHandle_map D g sz h w = (Inr a, h', w')
           \<and> h_handle h' = h_handle h \<and> h_mapped_size h' = sz"
proof -
  obtain ret p s where o: "gdr_map D (c_handle g) (h_handle h) sz (drv_state w) = ((ret, p), s)"
    by (metis prod.exhaust)
  from assms(1) have "fst (fst (gdr_map D (c_handle g) (h_handle h) sz (drv_state w))) = 0"
    by (simp add: always_succeeds_def)
  with o have "ret = 0" by simp
  with o assms(2-5) show ?thesis
    by (simp add: map_when_unmapped)
qed

lemma unmap_succeeds:
  assumes "always_succeeds D" and "c_handle g = Some c" and "h_handle h = Some m"
      and "fits_unsigned 64 (h_mapped_size h)"
  shows "\<exists>h' w'. GDRHandle_unmap D g h w = (Inr (), h', w')
           \<and> h_handle h' = h_handle h \<and> \<not> truthy_ptr (h_mapped_ptr h')"
proof (cases "truthy_ptr (h_mapped_ptr h)")
  case True
  from assms(1) have
    "fst (gdr_unmap D (c_handle g) (h_handle h) (h_mapped_ptr h) (h_mapped_size h) (drv_state w)) = 0"
    by (simp add: always_succeeds_def)
  with True assms(2-4) show ?thesis
    by (simp add: unmap_when_mapped check_error_zero truthy_ptr_None)
next
  case False
  then show ?thesis by (simp add: unmap_when_unmapped)
qed

lemma unpin_succeeds:
  assumes "always_succeeds D" and "c_handle g = Some c"
  shows "\<exists>h' w'. GDRHandle_unpin D g h w = (Inr (), h', w')
           \<and> h_handle h' = None \<and> h_mapped_ptr h' = h_mapped_ptr h"
proof (cases "truthy_struct (h_handle h)")
  case True
  from assms(1) have "fst (gdr_unpin_buffer D (c_handle g) (h_handle h) (drv_state w)) = 0"
    by (simp add: always_succeeds_def)
  with True assms(2) show ?thesis
    by (simp add: unpin_when_pinned check_error_zero)
next
  case False
  then have "h_handle h = None"
    by (simp add: truthy_struct_def split: option.splits)
  with False show ?thesis by (simp add: unpin_when_unpinned)
qed

lemma close_succeeds:
  assumes "always_succeeds D"
  shows "\<exists>g' w'. GDRCopy_close D g w = (Inr (), g', w') \<and> \<not> truthy_ptr (c_handle g')"
proof (cases "truthy_ptr (c_handle g)")
  case True
  from assms have "fst (gdr_close D (c_handle g) (drv_state w)) = 0"
    by (simp add: always_succeeds_def)
  with True show ?thesis
    by (simp add: close_when_open check_error_zero truthy_ptr_None)
next
  case False
  then show ?thesis by (simp add: close_when_closed)
qed

lemma teardown_with_live_owner:
  assumes "always_succeeds D" and "c_handle g = Some c" and "h_handle h = Some m"
      and "fits_unsigned 64 (h_mapped_size h)"
  shows "\<exists>h' w'. GDRHandle_del D g h w = (Inr (), h', w')
           \<and> \<not> truthy_ptr (h_mapped_ptr h') \<and> h_handle h' = None"
proof -
  from unmap_succeeds [OF assms] obtain h1 w1 where
    u: "GDRHandle_unmap D g h w = (Inr (), h1, w1)" and un: "\<not> truthy_ptr (h_mapped_ptr h1)"
    by blast
  from unpin_succeeds [OF assms(1,2)] obtain h2 w2 where
    p: "GDRHandle_unpin D g h1 w1 = (Inr (), h2, w2)" and t: "h_handle h2 = None"
    and k: "h_mapped_ptr h2 = h_mapped_ptr h1"
    by blast
  from u p have "GDRHandle_del D g h w = (Inr (), h2, w2)"
    by (simp add: GDRHandle_del_def)
  with un t k show ?thesis by simp
qed

subsection \<open>While the owning context is open\<close>

text \<open>
  With a driver context in the owner, the pin token on the handle and a recorded size that
  is a \<^verbatim>\<open>size_t\<close>, every argument of \<^verbatim>\<open>gdr_unmap\<close> converts, the call is made and
  the mapping record is cleared whatever the status: a second \<^verbatim>\<open>unmap\<close> returns without
  a driver call. The same holds for \<^verbatim>\<open>unpin\<close> with a driver context in the owner.
\<close>

lemma unmap_idempotent_with_live_owner:
  assumes "GDRHandle_unmap D g h w = (r, h', w')"
      and "c_handle g = Some c" and "h_handle h = Some m"
      and "fits_unsigned 64 (h_mapped_size h)"
  shows "(\<not> truthy_ptr (h_mapped_ptr h) \<longrightarrow> r = Inr () \<and> h' = h \<and> w' = w)
       \<and> GDRHandle_unmap D g (GDRHandle_init mh) w = (Inr (), GDRHandle_init mh, w)
       \<and> GDRHandle_unmap D g h' w' = (Inr (), h', w')
       \<and> (truthy_ptr (h_mapped_ptr h)
            \<and> fst (gdr_unmap D (c_handle g) (h_handle h) (h_mapped_ptr h) (h_mapped_size h)
                     (drv_state w)) = ret
            \<longrightarrow> r = (if ret \<noteq> 0 then Inl (DriverError ret ''Failed to unmap buffer'') else Inr ())
              \<and> h_mapped_ptr h' = None \<and> h_mapped_size h' = 0)"
proof -
  have fresh: "GDRHandle_unmap D g (GDRHandle_init mh) w = (Inr (), GDRHandle_init mh, w)"
    by (simp add: unmap_when_unmapped GDRHandle_init_def truthy_ptr_None)
  have "\<not> truthy_ptr (h_mapped_ptr h')"
    using unmap_leaves_unmapped [OF assms(2-4), of D w] assms(1) by simp
  then have again: "GDRHandle_unmap D g h' w' = (Inr (), h', w')"
    by (rule unmap_when_unmapped)
  show ?thesis
  proof (cases "truthy_ptr (h_mapped_ptr h)")
    case True
    from assms(1) have "h' = h\<lparr>h_mapped_ptr := None, h_mapped_size := 0\<rparr>"
      and "r = check_error
                 (fst (gdr_unmap D (c_handle g) (h_handle h) (h_mapped_ptr h) (h_mapped_size h)
                         (drv_state w))) ''Failed to unmap buffer''"
      by (simp_all add: unmap_when_mapped [OF True assms(2-4)])
    with True fresh again show ?thesis
      by (auto simp: check_error_nonzero check_error_zero)
  next
    case False
    with assms(1) have "r = Inr ()" "h' = h" "w' = w"
      by (simp_all add: unmap_when_unmapped)
    with False fresh again show ?thesis by simp
  qed
qed

lemma unpin_idempotent_with_live_owner:
  assumes "GDRHandle_unpin D g h w = (r, h', w')"
      and "c_handle g = Some c"
  shows "GDRHandle_unpin D g h' w' = (Inr (), h', w')
       \<and> h_handle h' = None
       \<and> (\<not> truthy_struct (h_handle h) \<longrightarrow> r = Inr () \<and> h' = h \<and> w' = w)
       \<and> (truthy_struct (h_handle h)
            \<and> fst (gdr_unpin_buffer D (c_handle g) (h_handle h) (drv_state w)) = ret
            \<longrightarrow> r = (if ret \<noteq> 0 then Inl (DriverError ret ''Failed to unpin buffer'') else Inr ())
              \<and> trace w' = trace w @ [Call_unpin_buffer (c_handle g) (h_handle h)])"
proof (cases "truthy_struct (h_handle h)")
  case True
  from assms(1) have h': "h' = h\<lparr>h_handle := None\<rparr>"
    and r: "r = check_error (fst (gdr_unpin_buffer D (c_handle g) (h_handle h) (drv_state w)))
                  ''Failed to unpin buffer''"
    and w': "trace w' = trace w @ [Call_unpin_buffer (c_handle g) (h_handle h)]"
    by (auto simp: unpin_when_pinned [OF True assms(2)])
  from h' have "\<not> truthy_struct (h_handle h')"
    by (simp add: truthy_struct_None)
  then have "GDRHandle_unpin D g h' w' = (Inr (), h', w')"
    by (rule unpin_when_unpinned)
  with True h' r w' show ?thesis
    by (auto simp: check_error_nonzero check_error_zero)
next
  case False
  with assms(1) have eqs: "r = Inr ()" "h' = h" "w' = w"
    by (simp_all add: unpin_when_unpinned)
  from False have "h_handle h = None"
    by (simp add: truthy_struct_def split: option.splits)
  with False eqs show ?thesis
    by (simp add: unpin_when_unpinned)
qed

subsection \<open>The concrete objects\<close>

lemma mapped_handle_truthy: "truthy_ptr (h_mapped_ptr mapped_handle)"
  by (simp add: mapped_handle_def truthy_ptr_def)

lemma fresh_handle_unmapped: "\<not> truthy_ptr (h_mapped_ptr (GDRHandle_init mh))"
  by (simp add: GDRHandle_init_def truthy_ptr_def)

lemma open_context_truthy: "truthy_ptr (c_handle open_context)"
  by (simp add: open_context_def truthy_ptr_def)

lemma closed_context_falsy: "\<not> truthy_ptr (c_handle GDRCopy_init)"
  by (simp add: GDRCopy_init_def truthy_ptr_def)

lemma mapped_handle_reached:
  "GDRCopy_open mock_driver GDRCopy_init mock_world =
     (Inr (), open_context, \<lparr>drv_state = drv_state mock_world, trace = [Call_open]\<rparr>)
 \<and> GDRCopy_pin_buffer_v2 mock_driver open_context 0x1000 4096 GDR_PIN_FLAG_DEFAULT mock_world =
     (Inr (GDRHandle_init 1),
      \<lparr>drv_state = drv_state mock_world, trace = [Call_pin_buffer_v2 (Some 1) 0x1000 4096 0]\<rparr>)
 \<and> GDRHandle_map mock_driver open_context 4096 (GDRHandle_init 1) mock_world =
     (Inr 0x7F0000001000, mapped_handle,
      \<lparr>drv_state = drv_state mapped_world, trace = [Call_map (Some 1) (Some 1) 4096]\<rparr>)"
  by (simp add: GDRCopy_open_def GDRCopy_pin_buffer_v2_def GDRHandle_map_def call_native_def
      invoke_def check_error_def fits_unsigned_def GDRCopy_init_def
      GDRHandle_init_def truthy_ptr_def mock_driver_def mock_world_def mapped_world_def
      open_context_def mapped_handle_def GDR_PIN_FLAG_DEFAULT_def)

section \<open>The claims\<close>

subsection \<open>C1: map on a mapped handle, and successful map\<close>

text \<open>
  Claim C1. On a handle with a live mapping (\<^verbatim>\<open>_mapped_ptr\<close> true in the guard of
  \<^verbatim>\<open>map\<close>), \<^verbatim>\<open>map\<close> raises the already-mapped error, without a driver call and
  without changing the handle, so every one of any number of retries raises it again.
  After an \<^verbatim>\<open>unmap\<close> whose arguments convert (the owner holds a driver context, the
  handle its pin token, the recorded size is a \<^verbatim>\<open>size_t\<close>), whatever the driver
  answered, the handle is unmapped and \<^verbatim>\<open>map\<close> is no longer rejected. On an unmapped
  handle with the pin token, an open owner and a size that is a \<^verbatim>\<open>size_t\<close>, when the
  driver's \<^verbatim>\<open>gdr_map\<close> returns status 0 and the address \<open>p\<close>, \<^verbatim>\<open>map\<close> records
  \<open>p\<close> and the size and returns \<open>p\<close> as an integer.
\<close>

theorem map_rejects_while_mapped:
  "(truthy_ptr (h_mapped_ptr h) \<longrightarrow>
      GDRHandle_map D g sz h w = (Inl AlreadyMappedError, h, w)
      \<and> map_attempts D g szs h w = (map (\<lambda>sz. Inl AlreadyMappedError) szs, h, w))
 \<and> (GDRHandle_unmap D g h w = (r, h', w')
      \<and> c_handle g = Some c \<and> h_handle h = Some m \<and> fits_unsigned 64 (h_mapped_size h) \<longrightarrow>
      \<not> truthy_ptr (h_mapped_ptr h')
      \<and> fst (GDRHandle_map D g sz h' w') \<noteq> Inl AlreadyMappedError)
 \<and> (\<not> truthy_ptr (h_mapped_ptr h)
      \<and> c_handle g = Some c \<and> h_handle h = Some m \<and> fits_unsigned 64 sz
      \<and> gdr_map D (c_handle g) (h_handle h) sz (drv_state w) = ((0, p), s) \<longrightarrow>
      GDRHandle_map D g sz h w =
        (Inr (uint p), h\<lparr>h_mapped_ptr := Some p, h_mapped_size := sz\<rparr>,
         \<lparr>drv_state = s, trace = trace w @ [Call_map (c_handle g) (h_handle h) sz]\<rparr>))"
proof (intro conjI impI)
  assume "truthy_ptr (h_mapped_ptr h)"
  then show "GDRHandle_map D g sz h w = (Inl AlreadyMappedError, h, w)"
    by (rule map_when_mapped)
next
  assume "truthy_ptr (h_mapped_ptr h)"
  then show "map_attempts D g szs h w = (map (\<lambda>sz. Inl AlreadyMappedError) szs, h, w)"
    by (rule map_attempts_when_mapped)
next
  assume a: "GDRHandle_unmap D g h w = (r, h', w')
      \<and> c_handle g = Some c \<and> h_handle h = Some m \<and> fits_unsigned 64 (h_mapped_size h)"
  then have "\<not> truthy_ptr (h_mapped_ptr (fst (snd (GDRHandle_unmap D g h w))))"
    using unmap_leaves_unmapped [of g c h m D w] by blast
  with a show un: "\<not> truthy_ptr (h_mapped_ptr h')" by simp
  show "fst (GDRHandle_map D g sz h' w') \<noteq> Inl AlreadyMappedError"
    using un by (rule map_never_already_mapped_when_unmapped)
next
  assume "\<not> truthy_ptr (h_mapped_ptr h)
      \<and> c_handle g = Some c \<and> h_handle h = Some m \<and> fits_unsigned 64 sz
      \<and> gdr_map D (c_handle g) (h_handle h) sz (drv_state w) = ((0, p), s)"
  then have a: "\<not> truthy_ptr (h_mapped_ptr h)" "c_handle g = Some c" "h_handle h = Some m"
    "fits_unsigned 64 sz"
    "gdr_map D (c_handle g) (h_handle h) sz (drv_state w) = ((0, p), s)"
    by blast+
  show "GDRHandle_map D g sz h w =
        (Inr (uint p), h\<lparr>h_mapped_ptr := Some p, h_mapped_size := sz\<rparr>,
         \<lparr>drv_state = s, trace = trace w @ [Call_map (c_handle g) (h_handle h) sz]\<rparr>)"
    using map_when_unmapped [OF a] by simp
qed

text \<open>
The theorem on the mock driver: three rejected attempts, then \<^verbatim>\<open>unmap\<close>, then a successful \<^verbatim>\<open>map\<close>.
\<close>

theorem map_rejects_while_mapped_witness:
  "truthy_ptr (h_mapped_ptr mapped_handle)
 \<and> GDRHandle_map mock_driver open_context 4096 mapped_handle mapped_world =
     (Inl AlreadyMappedError, mapped_handle, mapped_world)
 \<and> map_attempts mock_driver open_context [4096, 8, 4096] mapped_handle mapped_world =
     ([Inl AlreadyMappedError, Inl AlreadyMappedError, Inl AlreadyMappedError],
      mapped_handle, mapped_world)
 \<and> c_handle open_context = Some 1 \<and> h_handle mapped_handle = Some 1
 \<and> fits_unsigned 64 (h_mapped_size mapped_handle)
 \<and> GDRHandle_unmap mock_driver open_context mapped_handle mapped_world =
     (Inr (), unmapped_handle,
      \<lparr>drv_state = \<lparr>m_mapped = False, m_size = 0\<rparr>,
       trace = [Call_unmap (Some 1) (Some 1) (Some 0x7F0000001000) 4096]\<rparr>)
 \<and> \<not> truthy_ptr (h_mapped_ptr unmapped_handle)
 \<and> fst (GDRHandle_map mock_driver open_context 4096 unmapped_handle
          \<lparr>drv_state = \<lparr>m_mapped = False, m_size = 0\<rparr>,
           trace = [Call_unmap (Some 1) (Some 1) (Some 0x7F0000001000) 4096]\<rparr>)
      \<noteq> Inl AlreadyMappedError
 \<and> h_handle unmapped_handle = Some 1 \<and> fits_unsigned 64 4096
 \<and> gdr_map mock_driver (c_handle open_context) (h_handle unmapped_handle) 4096
      (drv_state mock_world) = ((0, 0x7F0000001000), \<lparr>m_mapped = True, m_size = 4096\<rparr>)
 \<and> GDRHandle_map mock_driver open_context 4096 unmapped_handle mock_world =
     (Inr 139637976731648, mapped_handle,
      \<lparr>drv_state = \<lparr>m_mapped = True, m_size = 4096\<rparr>,
       trace = [Call_map (Some 1) (Some 1) 4096]\<rparr>)"
proof -
  have c: "c_handle open_context = Some 1" "h_handle mapped_handle = Some 1"
    "h_handle unmapped_handle = Some 1"
    by (simp_all add: open_context_def mapped_handle_def unmapped_handle_def)
  have f: "fits_unsigned 64 (h_mapped_size mapped_handle)" "fits_unsigned 64 4096"
    by (simp_all add: fits_unsigned_def mapped_handle_def)
  have u: "GDRHandle_unmap mock_driver open_context mapped_handle mapped_world =
     (Inr (), unmapped_handle,
      \<lparr>drv_state = \<lparr>m_mapped = False, m_size = 0\<rparr>,
       trace = [Call_unmap (Some 1) (Some 1) (Some 0x7F0000001000) 4096]\<rparr>)"
    by (simp add: unmap_when_mapped [OF mapped_handle_truthy c(1) c(2) f(1)])
       (simp add: mock_driver_def mapped_handle_def mapped_world_def open_context_def
          unmapped_handle_def check_error_zero)
  have n: "\<not> truthy_ptr (h_mapped_ptr unmapped_handle)"
    by (simp add: unmapped_handle_def truthy_ptr_def)
  have m: "gdr_map mock_driver (c_handle open_context) (h_handle unmapped_handle) 4096
      (drv_state mock_world) = ((0, 0x7F0000001000), \<lparr>m_mapped = True, m_size = 4096\<rparr>)"
    by (simp add: mock_driver_def mock_world_def)
  show ?thesis
    using map_rejects_while_mapped [where h = mapped_handle and D = mock_driver and g = open_context
        and sz = 4096 and w = mapped_world and szs = "[4096, 8, 4096]" and r = "Inr ()"
        and h' = unmapped_handle and c = 1 and m = 1
        and w' = "\<lparr>drv_state = \<lparr>m_mapped = False, m_size = 0\<rparr>,
                   trace = [Call_unmap (Some 1) (Some 1) (Some 0x7F0000001000) 4096]\<rparr>"]
      map_rejects_while_mapped [where h = unmapped_handle and D = mock_driver and g = open_context
        and sz = 4096 and w = mock_world and p = "0x7F0000001000" and c = 1 and m = 1
        and s = "\<lparr>m_mapped = True, m_size = 4096\<rparr>"]
      mapped_handle_truthy u n m c f
    by (simp del: map_attempts.simps
          add: unmapped_handle_def mapped_handle_def mock_world_def open_context_def)
qed

subsection \<open>C2: unmap after the owner was closed\<close>

text \<open>
  Claim C2 fails in the code. \<^verbatim>\<open>unmap\<close> clears the mapping record after the native
  call, and the binding refuses the call with \<^verbatim>\<open>TypeError\<close> when the owner's
  \<^verbatim>\<open>_handle\<close> is \<^verbatim>\<open>None\<close>. Take the mock driver, the context it opened and the
  handle that \<^verbatim>\<open>map(4096)\<close> produced, and close the context first, as the examples of
  the repository do: then \<^verbatim>\<open>unmap\<close> raises \<^verbatim>\<open>TypeError\<close>, makes no driver call and
  leaves the mapping record in place, and called twice in a row it raises twice.
\<close>

theorem unmap_raises_after_owner_closed:
  "GDRCopy_close mock_driver open_context mapped_world =
     (Inr (), closed_context,
      \<lparr>drv_state = \<lparr>m_mapped = True, m_size = 4096\<rparr>, trace = [Call_close (Some 1)]\<rparr>)
 \<and> truthy_ptr (h_mapped_ptr mapped_handle)
 \<and> GDRHandle_unmap mock_driver closed_context mapped_handle
      \<lparr>drv_state = \<lparr>m_mapped = True, m_size = 4096\<rparr>, trace = [Call_close (Some 1)]\<rparr> =
     (Inl TypeError, mapped_handle,
      \<lparr>drv_state = \<lparr>m_mapped = True, m_size = 4096\<rparr>, trace = [Call_close (Some 1)]\<rparr>)
 \<and> unmap_twice mock_driver closed_context mapped_handle
      \<lparr>drv_state = \<lparr>m_mapped = True, m_size = 4096\<rparr>, trace = [Call_close (Some 1)]\<rparr> =
     (Inl TypeError, Inl TypeError, mapped_handle,
      \<lparr>drv_state = \<lparr>m_mapped = True, m_size = 4096\<rparr>, trace = [Call_close (Some 1)]\<rparr>)"
  by (simp add: unmap_twice_def GDRCopy_close_def GDRHandle_unmap_def call_native_def invoke_def
      check_error_def truthy_ptr_def mock_driver_def open_context_def closed_context_def
      mapped_handle_def mapped_world_def)

subsection \<open>C3: unpin after the owner was closed\<close>

text \<open>
  Claim C3 fails in the code. \<^verbatim>\<open>unpin\<close> clears the pin token after the native call,
  and the binding refuses the call with \<^verbatim>\<open>TypeError\<close> when the owner's \<^verbatim>\<open>_handle\<close>
  is \<^verbatim>\<open>None\<close>. On the pinned handle of the mock driver, once the owning context has
  been closed, \<^verbatim>\<open>unpin\<close> raises \<^verbatim>\<open>TypeError\<close>, makes no driver call and keeps the
  token, and called twice in a row it raises twice.
\<close>

theorem unpin_raises_after_owner_closed:
  "GDRCopy_close mock_driver open_context mock_world =
     (Inr (), closed_context,
      \<lparr>drv_state = \<lparr>m_mapped = False, m_size = 0\<rparr>, trace = [Call_close (Some 1)]\<rparr>)
 \<and> truthy_struct (h_handle unmapped_handle)
 \<and> GDRHandle_unpin mock_driver closed_context unmapped_handle
      \<lparr>drv_state = \<lparr>m_mapped = False, m_size = 0\<rparr>, trace = [Call_close (Some 1)]\<rparr> =
     (Inl TypeError, unmapped_handle,
      \<lparr>drv_state = \<lparr>m_mapped = False, m_size = 0\<rparr>, trace = [Call_close (Some 1)]\<rparr>)
 \<and> unpin_twice mock_driver closed_context unmapped_handle
      \<lparr>drv_state = \<lparr>m_mapped = False, m_size = 0\<rparr>, trace = [Call_close (Some 1)]\<rparr> =
     (Inl TypeError, Inl TypeError, unmapped_handle,
      \<lparr>drv_state = \<lparr>m_mapped = False, m_size = 0\<rparr>, trace = [Call_close (Some 1)]\<rparr>)
 \<and> h_handle unmapped_handle = Some 1"
  by (simp add: unpin_twice_def GDRCopy_close_def GDRHandle_unpin_def call_native_def invoke_def
      check_error_def truthy_ptr_def truthy_struct_def mock_driver_def open_context_def
      closed_context_def unmapped_handle_def mock_world_def)

subsection \<open>C4: the scenario, and what the second get_info reports\<close>

text \<open>
  Claim C4, amended. Against a driver whose calls all succeed the whole scenario completes
  without error, and the second \<^verbatim>\<open>get_info()\<close> returns the dictionary the first one
  returned: \<^verbatim>\<open>get_info\<close> queries the driver only while \<^verbatim>\<open>_info\<close> is unset, and
  \<^verbatim>\<open>map\<close> does not reset it. So a first report of \<open>mapped = False\<close> is repeated after
  \<^verbatim>\<open>map\<close>.
\<close>

theorem scenario_second_get_info_cached:
  assumes "always_succeeds D"
  shows "\<exists>info1 addr. scenario D w = Inr (info1, addr, info1)"
proof -
  from open_fresh_succeeds [OF assms] obtain p w1 where p: "p \<noteq> 0"
    and s1: "GDRCopy_open D GDRCopy_init w = (Inr (), \<lparr>c_handle = Some p\<rparr>, w1)"
    by blast
  let ?g = "\<lparr>c_handle = Some p\<rparr>"
  from p have op: "truthy_ptr (c_handle ?g)" by (simp add: truthy_ptr_def)
  have c: "c_handle ?g = Some p" by simp
  have f: "fits_unsigned 64 0x1000" "fits_unsigned 64 4096" "fits_unsigned 32 GDR_PIN_FLAG_DEFAULT"
    by (simp_all add: fits_unsigned_def GDR_PIN_FLAG_DEFAULT_def)
  from pin_v2_succeeds [OF assms op f] obtain mh w2 where
    s2: "GDRCopy_pin_buffer_v2 D ?g 0x1000 4096 GDR_PIN_FLAG_DEFAULT w1 = (Inr (GDRHandle_init mh), w2)"
    by blast
  have t0: "h_handle (GDRHandle_init mh) = Some mh"
    by (simp add: GDRHandle_init_def)
  from get_info_succeeds [OF assms c t0] obtain d h1 w3 where
    s3: "GDRHandle_get_info D ?g (GDRHandle_init mh) w2 = (Inr d, h1, w3)"
    and t1': "h_handle h1 = h_handle (GDRHandle_init mh)"
    and m1: "h_mapped_ptr h1 = h_mapped_ptr (GDRHandle_init mh)"
    by blast
  from t1' t0 have t1: "h_handle h1 = Some mh" by simp
  from m1 have "\<not> truthy_ptr (h_mapped_ptr h1)"
    by (simp add: GDRHandle_init_def truthy_ptr_None)
  from map_succeeds [OF assms this c t1 f(2)] obtain a h2 w4 where
    s4: "GDRHandle_map D ?g 4096 h1 w3 = (Inr a, h2, w4)"
    and t2': "h_handle h2 = h_handle h1" and z2: "h_mapped_size h2 = 4096"
    by blast
  from t2' t1 have t2: "h_handle h2 = Some mh" by simp
  from s3 s4 have s5: "GDRHandle_get_info D ?g h2 w4 = (Inr d, h2, w4)"
    by (rule get_info_after_map_is_cached)
  from f(2) z2 have "fits_unsigned 64 (h_mapped_size h2)" by simp
  from unmap_succeeds [OF assms c t2 this] obtain h4 w6 where
    s6: "GDRHandle_unmap D ?g h2 w4 = (Inr (), h4, w6)"
    by blast
  from unpin_succeeds [OF assms c] obtain h5 w7 where
    s7: "GDRHandle_unpin D ?g h4 w6 = (Inr (), h5, w7)"
    by blast
  from close_succeeds [OF assms] obtain g2 w8 where
    s8: "GDRCopy_close D ?g w7 = (Inr (), g2, w8)"
    by blast
  from s1 s2 s3 s4 s5 s6 s7 s8 have "scenario D w = Inr (d, a, d)"
    by (simp add: scenario_def)
  then show ?thesis by blast
qed

text \<open>
The theorem on the mock driver.
\<close>

theorem scenario_second_get_info_cached_witness:
  "always_succeeds mock_driver
 \<and> (\<exists>info1 addr. scenario mock_driver mock_world = Inr (info1, addr, info1))"
  using scenario_second_get_info_cached [OF mock_always_succeeds, of mock_world]
    mock_always_succeeds
  by simp

text \<open>
  The claim as stated, that the second \<^verbatim>\<open>get_info()\<close> reports \<open>mapped = True\<close>, fails
  on the mock driver: the run completes, \<^verbatim>\<open>map\<close> returns a non-zero address, and both
  \<^verbatim>\<open>get_info\<close> calls report \<open>mapped = False\<close>, although the driver asked in its
  state after \<^verbatim>\<open>map\<close> answers \<open>mapped = 1\<close>.
\<close>

theorem scenario_stale_info_counterexample:
  "always_succeeds mock_driver
 \<and> scenario mock_driver mock_world =
     Inr (\<lparr>d_va = 4096, d_mapped_size = 0, d_page_size = 65536, d_mapped = False,
            d_wc_mapping = False, d_mapping_type = 0\<rparr>,
          139637976731648,
          \<lparr>d_va = 4096, d_mapped_size = 0, d_page_size = 65536, d_mapped = False,
            d_wc_mapping = False, d_mapping_type = 0\<rparr>)
 \<and> info_mapped (snd (fst (gdr_get_info_v2 mock_driver (Some 1) (Some 1)
      \<lparr>m_mapped = True, m_size = 4096\<rparr>))) = 1"
  by (simp add: mock_always_succeeds)
     (simp add: scenario_def GDRCopy_open_def GDRCopy_close_def GDRCopy_pin_buffer_v2_def
        GDRHandle_get_info_def GDRHandle_map_def GDRHandle_unmap_def GDRHandle_unpin_def
        GDRCopy_init_def GDRHandle_init_def GDR_PIN_FLAG_DEFAULT_def make_info_def
        call_native_def fits_unsigned_def
        invoke_def check_error_def truthy_ptr_def truthy_struct_def mock_driver_def
        mock_world_def)

subsection \<open>C5: the copies need a live mapping\<close>

text \<open>
  Claim C5. Without a live mapping both copies raise the not-mapped error and leave the
  handle and the world, hence the trace of driver calls, unchanged. On a mapped handle that
  holds its pin token, with a size that is a \<^verbatim>\<open>size_t\<close>, the wrapper passes the size to
  the driver and turns the status into the outcome: with the size check of the spec in the
  driver (\<open>size_checked\<close>), a size above the mapped size raises the driver error with the
  driver state unchanged; in general the call returns normally exactly when the native copy
  returned 0.
\<close>

theorem copy_requires_mapping:
  "(\<not> truthy_ptr (h_mapped_ptr h) \<longrightarrow>
      GDRHandle_copy_to_mapping D host_ptr sz h w = (Inl NotMappedError, h, w)
      \<and> GDRHandle_copy_from_mapping D host_ptr sz h w = (Inl NotMappedError, h, w))
 \<and> (truthy_ptr (h_mapped_ptr h) \<and> h_handle h = Some m \<and> fits_unsigned 64 sz
      \<and> code \<noteq> 0 \<and> msize (drv_state w) = h_mapped_size h
      \<and> sz > h_mapped_size h \<longrightarrow>
      GDRHandle_copy_to_mapping (size_checked msize code D) host_ptr sz h w =
        (Inl (DriverError code ''Failed to copy to mapping''), h,
         \<lparr>drv_state = drv_state w,
          trace = trace w @
            [Call_copy_to_mapping (h_handle h) (h_mapped_ptr h) (word_of_int host_ptr) sz]\<rparr>)
      \<and> GDRHandle_copy_from_mapping (size_checked msize code D) host_ptr sz h w =
        (Inl (DriverError code ''Failed to copy from mapping''), h,
         \<lparr>drv_state = drv_state w,
          trace = trace w @
            [Call_copy_from_mapping (h_handle h) (word_of_int host_ptr) (h_mapped_ptr h) sz]\<rparr>))
 \<and> (truthy_ptr (h_mapped_ptr h) \<and> h_handle h = Some m \<and> fits_unsigned 64 sz
      \<and> fst (gdr_copy_to_mapping D (h_handle h) (h_mapped_ptr h) (word_of_int host_ptr) sz
               (drv_state w)) = ret_to
      \<and> fst (gdr_copy_from_mapping D (h_handle h) (word_of_int host_ptr) (h_mapped_ptr h) sz
               (drv_state w)) = ret_from \<longrightarrow>
      fst (GDRHandle_copy_to_mapping D host_ptr sz h w) =
        (if ret_to \<noteq> 0 then Inl (DriverError ret_to ''Failed to copy to mapping'') else Inr ())
      \<and> fst (GDRHandle_copy_from_mapping D host_ptr sz h w) =
        (if ret_from \<noteq> 0 then Inl (DriverError ret_from ''Failed to copy from mapping'') else Inr ()))"
proof (intro conjI impI)
  assume "\<not> truthy_ptr (h_mapped_ptr h)"
  then show "GDRHandle_copy_to_mapping D host_ptr sz h w = (Inl NotMappedError, h, w)"
    and "GDRHandle_copy_from_mapping D host_ptr sz h w = (Inl NotMappedError, h, w)"
    by (simp_all add: copy_to_when_unmapped copy_from_when_unmapped)
next
  assume a: "truthy_ptr (h_mapped_ptr h) \<and> h_handle h = Some m \<and> fits_unsigned 64 sz
      \<and> code \<noteq> 0 \<and> msize (drv_state w) = h_mapped_size h \<and> sz > h_mapped_size h"
  then have p: "truthy_ptr (h_mapped_ptr h)" "h_handle h = Some m" "fits_unsigned 64 sz"
    by simp_all
  from a show "GDRHandle_copy_to_mapping (size_checked msize code D) host_ptr sz h w =
        (Inl (DriverError code ''Failed to copy to mapping''), h,
         \<lparr>drv_state = drv_state w,
          trace = trace w @
            [Call_copy_to_mapping (h_handle h) (h_mapped_ptr h) (word_of_int host_ptr) sz]\<rparr>)"
    by (simp add: copy_to_when_mapped [OF p] size_checked_def check_error_nonzero)
  from a show "GDRHandle_copy_from_mapping (size_checked msize code D) host_ptr sz h w =
        (Inl (DriverError code ''Failed to copy from mapping''), h,
         \<lparr>drv_state = drv_state w,
          trace = trace w @
            [Call_copy_from_mapping (h_handle h) (word_of_int host_ptr) (h_mapped_ptr h) sz]\<rparr>)"
    by (simp add: copy_from_when_mapped [OF p] size_checked_def check_error_nonzero)
next
  assume a: "truthy_ptr (h_mapped_ptr h) \<and> h_handle h = Some m \<and> fits_unsigned 64 sz
      \<and> fst (gdr_copy_to_mapping D (h_handle h) (h_mapped_ptr h) (word_of_int host_ptr) sz
               (drv_state w)) = ret_to
      \<and> fst (gdr_copy_from_mapping D (h_handle h) (word_of_int host_ptr) (h_mapped_ptr h) sz
               (drv_state w)) = ret_from"
  then have p: "truthy_ptr (h_mapped_ptr h)" "h_handle h = Some m" "fits_unsigned 64 sz"
    by simp_all
  from a show "fst (GDRHandle_copy_to_mapping D host_ptr sz h w) =
        (if ret_to \<noteq> 0 then Inl (DriverError ret_to ''Failed to copy to mapping'') else Inr ())"
    by (auto simp: copy_to_when_mapped [OF p] check_error_nonzero check_error_zero)
  from a show "fst (GDRHandle_copy_from_mapping D host_ptr sz h w) =
        (if ret_from \<noteq> 0 then Inl (DriverError ret_from ''Failed to copy from mapping'') else Inr ())"
    by (auto simp: copy_from_when_mapped [OF p] check_error_nonzero check_error_zero)
qed

text \<open>
The theorem on an unmapped handle, and on the mapped handle with sizes 4097 and 4096.
\<close>

theorem copy_requires_mapping_witness:
  "\<not> truthy_ptr (h_mapped_ptr unmapped_handle)
 \<and> GDRHandle_copy_to_mapping mock_driver 65536 4096 unmapped_handle mock_world =
     (Inl NotMappedError, unmapped_handle, mock_world)
 \<and> GDRHandle_copy_from_mapping mock_driver 65536 4096 unmapped_handle mock_world =
     (Inl NotMappedError, unmapped_handle, mock_world)
 \<and> truthy_ptr (h_mapped_ptr mapped_handle) \<and> h_handle mapped_handle = Some 1
 \<and> fits_unsigned 64 4097 \<and> fits_unsigned 64 4096 \<and> (22::int) \<noteq> 0
 \<and> m_size (drv_state mapped_world) = h_mapped_size mapped_handle
 \<and> (4097::int) > h_mapped_size mapped_handle
 \<and> GDRHandle_copy_to_mapping (size_checked m_size 22 mock_driver) 65536 4097 mapped_handle
      mapped_world =
     (Inl (DriverError 22 ''Failed to copy to mapping''), mapped_handle,
      \<lparr>drv_state = drv_state mapped_world,
       trace = [Call_copy_to_mapping (Some 1) (Some 0x7F0000001000) 65536 4097]\<rparr>)
 \<and> GDRHandle_copy_from_mapping (size_checked m_size 22 mock_driver) 65536 4097 mapped_handle
      mapped_world =
     (Inl (DriverError 22 ''Failed to copy from mapping''), mapped_handle,
      \<lparr>drv_state = drv_state mapped_world,
       trace = [Call_copy_from_mapping (Some 1) 65536 (Some 0x7F0000001000) 4097]\<rparr>)
 \<and> fst (GDRHandle_copy_to_mapping mock_driver 65536 4096 mapped_handle mapped_world) = Inr ()
 \<and> fst (GDRHandle_copy_from_mapping (failing_driver 5) 65536 4096 mapped_handle mapped_world) =
     Inl (DriverError 5 ''Failed to copy from mapping'')"
proof -
  have n: "\<not> truthy_ptr (h_mapped_ptr unmapped_handle)"
    by (simp add: unmapped_handle_def truthy_ptr_def)
  have t: "h_handle mapped_handle = Some 1" by (simp add: mapped_handle_def)
  have z: "fits_unsigned 64 4097" "fits_unsigned 64 4096" by (simp_all add: fits_unsigned_def)
  have e: "m_size (drv_state mapped_world) = h_mapped_size mapped_handle"
    "(4097::int) > h_mapped_size mapped_handle"
    by (simp_all add: mapped_world_def mapped_handle_def)
  have r1: "fst (gdr_copy_to_mapping mock_driver (h_handle mapped_handle)
               (h_mapped_ptr mapped_handle) (word_of_int 65536) 4096 (drv_state mapped_world)) = 0"
    "fst (gdr_copy_from_mapping mock_driver (h_handle mapped_handle) (word_of_int 65536)
               (h_mapped_ptr mapped_handle) 4096 (drv_state mapped_world)) = 0"
    by (simp_all add: mock_driver_def)
  have r2: "fst (gdr_copy_to_mapping (failing_driver 5) (h_handle mapped_handle)
               (h_mapped_ptr mapped_handle) (word_of_int 65536) 4096 (drv_state mapped_world)) = 5"
    "fst (gdr_copy_from_mapping (failing_driver 5) (h_handle mapped_handle) (word_of_int 65536)
               (h_mapped_ptr mapped_handle) 4096 (drv_state mapped_world)) = 5"
    by (simp_all add: failing_driver_def)
  show ?thesis
    using copy_requires_mapping [where h = unmapped_handle and D = mock_driver and host_ptr = 65536
        and sz = 4096 and w = mock_world]
      copy_requires_mapping [where h = mapped_handle and D = mock_driver and host_ptr = 65536
        and sz = 4097 and w = mapped_world and code = 22 and msize = m_size and m = 1]
      copy_requires_mapping [where h = mapped_handle and D = mock_driver and host_ptr = 65536
        and sz = 4096 and w = mapped_world and ret_to = 0 and ret_from = 0 and m = 1]
      copy_requires_mapping [where h = mapped_handle and D = "failing_driver 5" and host_ptr = 65536
        and sz = 4096 and w = mapped_world and ret_to = 5 and ret_from = 5 and m = 1]
      n mapped_handle_truthy t z e r1 r2
    by (simp add: mapped_handle_def mapped_world_def)
qed

subsection \<open>C6: open\<close>

text \<open>
  Claim C6. On an open context \<^verbatim>\<open>open\<close> raises the already-open error and leaves the
  context and the world unchanged. On a closed context it calls \<^verbatim>\<open>gdr_open\<close> once and
  stores the result; a non-null result is the driver context and the call returns normally,
  a null result raises \<^verbatim>\<open>GDRError(-1, "Failed to open GDRCopy")\<close> and leaves the context
  closed.
\<close>

theorem open_rejects_when_open:
  "(truthy_ptr (c_handle g) \<longrightarrow> GDRCopy_open D g w = (Inl AlreadyOpenError, g, w))
 \<and> (\<not> truthy_ptr (c_handle g) \<and> gdr_open D (drv_state w) = (p, s) \<longrightarrow>
      GDRCopy_open D g w =
        ((if p \<noteq> 0 then Inr () else Inl (GDRError (- 1) ''Failed to open GDRCopy'')),
         g\<lparr>c_handle := Some p\<rparr>,
         \<lparr>drv_state = s, trace = trace w @ [Call_open]\<rparr>)
      \<and> truthy_ptr (c_handle (g\<lparr>c_handle := Some p\<rparr>)) = (p \<noteq> 0))"
  by (simp add: open_when_open open_when_closed truthy_ptr_def)

text \<open>
The theorem on the opened context, and on a fresh one with a driver that opens and one that does not.
\<close>

theorem open_rejects_when_open_witness:
  "truthy_ptr (c_handle open_context)
 \<and> GDRCopy_open mock_driver open_context mock_world =
     (Inl AlreadyOpenError, open_context, mock_world)
 \<and> \<not> truthy_ptr (c_handle GDRCopy_init)
 \<and> gdr_open mock_driver (drv_state mock_world) = (1, drv_state mock_world)
 \<and> GDRCopy_open mock_driver GDRCopy_init mock_world =
     (Inr (), open_context, \<lparr>drv_state = drv_state mock_world, trace = [Call_open]\<rparr>)
 \<and> gdr_open (failing_driver 5) (drv_state mock_world) = (0, drv_state mock_world)
 \<and> GDRCopy_open (failing_driver 5) GDRCopy_init mock_world =
     (Inl (GDRError (- 1) ''Failed to open GDRCopy''), \<lparr>c_handle = Some 0\<rparr>,
      \<lparr>drv_state = drv_state mock_world, trace = [Call_open]\<rparr>)"
proof -
  have o1: "gdr_open mock_driver (drv_state mock_world) = (1, drv_state mock_world)"
    by (simp add: mock_driver_def)
  have o2: "gdr_open (failing_driver 5) (drv_state mock_world) = (0, drv_state mock_world)"
    by (simp add: failing_driver_def)
  show ?thesis
    using open_rejects_when_open [where g = open_context and D = mock_driver and w = mock_world]
      open_rejects_when_open [where g = GDRCopy_init and D = mock_driver and w = mock_world and p = 1
        and s = "drv_state mock_world"]
      open_rejects_when_open [where g = GDRCopy_init and D = "failing_driver 5" and w = mock_world
        and p = 0 and s = "drv_state mock_world"]
      open_context_truthy closed_context_falsy o1 o2
    by (simp add: GDRCopy_init_def open_context_def mock_world_def)
qed

subsection \<open>C7: close is idempotent and fail-safe\<close>

text \<open>
  Claim C7. On a closed context \<^verbatim>\<open>close\<close> returns normally and changes nothing. On an
  open one a non-zero status of \<^verbatim>\<open>gdr_close\<close> raises the driver error. After any call
  of \<^verbatim>\<open>close\<close> the context is closed, and a further call returns normally without a
  driver call.
\<close>

theorem close_idempotent_fail_safe:
  assumes "GDRCopy_close D g w = (r, g', w')"
  shows "(\<not> truthy_ptr (c_handle g) \<longrightarrow> r = Inr () \<and> g' = g \<and> w' = w)
       \<and> (truthy_ptr (c_handle g) \<and> fst (gdr_close D (c_handle g) (drv_state w)) = ret \<and> ret \<noteq> 0 \<longrightarrow>
            r = Inl (DriverError ret ''Failed to close GDRCopy''))
       \<and> \<not> truthy_ptr (c_handle g')
       \<and> GDRCopy_close D g' w' = (Inr (), g', w')"
proof (cases "truthy_ptr (c_handle g)")
  case True
  with assms have g': "g' = g\<lparr>c_handle := None\<rparr>"
    and r: "r = check_error (fst (gdr_close D (c_handle g) (drv_state w))) ''Failed to close GDRCopy''"
    by (simp_all add: close_when_open)
  from g' have closed: "\<not> truthy_ptr (c_handle g')"
    by (simp add: truthy_ptr_None)
  with True r show ?thesis
    by (simp add: check_error_nonzero close_when_closed)
next
  case False
  with assms have "r = Inr ()" "g' = g" "w' = w"
    by (simp_all add: close_when_closed)
  with False show ?thesis
    by (simp add: close_when_closed)
qed

text \<open>
The theorem with a driver whose \<^verbatim>\<open>gdr_close\<close> fails, and on a fresh context.
\<close>

theorem close_idempotent_fail_safe_witness:
  "truthy_ptr (c_handle open_context)
 \<and> fst (gdr_close (failing_driver 5) (c_handle open_context) (drv_state mock_world)) = 5
 \<and> GDRCopy_close (failing_driver 5) open_context mock_world =
     (Inl (DriverError 5 ''Failed to close GDRCopy''), GDRCopy_init,
      \<lparr>drv_state = drv_state mock_world, trace = [Call_close (Some 1)]\<rparr>)
 \<and> \<not> truthy_ptr (c_handle GDRCopy_init)
 \<and> GDRCopy_close (failing_driver 5) GDRCopy_init
      \<lparr>drv_state = drv_state mock_world, trace = [Call_close (Some 1)]\<rparr> =
     (Inr (), GDRCopy_init, \<lparr>drv_state = drv_state mock_world, trace = [Call_close (Some 1)]\<rparr>)
 \<and> GDRCopy_close (failing_driver 5) GDRCopy_init mock_world = (Inr (), GDRCopy_init, mock_world)"
proof -
  let ?w = "\<lparr>drv_state = drv_state mock_world, trace = [Call_close (Some 1)]\<rparr>"
  have c1: "GDRCopy_close (failing_driver 5) open_context mock_world =
     (Inl (DriverError 5 ''Failed to close GDRCopy''), GDRCopy_init, ?w)"
    by (simp add: close_when_open open_context_truthy)
       (simp add: failing_driver_def open_context_def GDRCopy_init_def mock_world_def
          check_error_nonzero)
  have c2: "GDRCopy_close (failing_driver 5) GDRCopy_init mock_world =
     (Inr (), GDRCopy_init, mock_world)"
    by (simp add: close_when_closed closed_context_falsy)
  have s: "fst (gdr_close (failing_driver 5) (c_handle open_context) (drv_state mock_world)) = 5"
    by (simp add: failing_driver_def)
  show ?thesis
    using close_idempotent_fail_safe [OF c1, where ret = 5] close_idempotent_fail_safe [OF c2, where ret = 5]
      open_context_truthy closed_context_falsy s c1 c2
    by simp
qed

subsection \<open>C8: get_driver_version on a closed context\<close>

text \<open>
  Claim C8 fails in the code at \<^verbatim>\<open>get_driver_version\<close>, which has no test of
  \<^verbatim>\<open>_handle\<close>. A context whose \<^verbatim>\<open>open\<close> failed holds the \<^verbatim>\<open>NULL\<close> pointer: it
  is closed, and \<^verbatim>\<open>get_attribute\<close> raises the not-open error on it without a driver
  call. \<^verbatim>\<open>get_driver_version\<close> on the same context enters
  \<^verbatim>\<open>gdr_driver_get_version\<close> with \<^verbatim>\<open>NULL\<close>, and its outcome is the driver's: a
  \<^verbatim>\<open>GDRError\<close> with the failing driver, the version with the mock driver, never the
  not-open error with any driver. On a context that was never opened or was closed, where
  \<^verbatim>\<open>_handle\<close> is \<^verbatim>\<open>None\<close>, no driver call is made, but what is raised is the
  binding's \<^verbatim>\<open>TypeError\<close>, not the not-open error.
\<close>

theorem get_driver_version_without_open_check:
  "GDRCopy_open (failing_driver 5) GDRCopy_init mock_world =
     (Inl (GDRError (- 1) ''Failed to open GDRCopy''), failed_open_context,
      \<lparr>drv_state = \<lparr>m_mapped = False, m_size = 0\<rparr>, trace = [Call_open]\<rparr>)
 \<and> \<not> truthy_ptr (c_handle failed_open_context)
 \<and> GDRCopy_get_attribute (failing_driver 5) failed_open_context 1
      \<lparr>drv_state = \<lparr>m_mapped = False, m_size = 0\<rparr>, trace = [Call_open]\<rparr> =
     (Inl NotOpenError, \<lparr>drv_state = \<lparr>m_mapped = False, m_size = 0\<rparr>, trace = [Call_open]\<rparr>)
 \<and> get_driver_version (failing_driver 5) failed_open_context
      \<lparr>drv_state = \<lparr>m_mapped = False, m_size = 0\<rparr>, trace = [Call_open]\<rparr> =
     (Inl (GDRError 5 ''Failed to get driver version (error code: 5)''),
      \<lparr>drv_state = \<lparr>m_mapped = False, m_size = 0\<rparr>,
       trace = [Call_open, Call_driver_get_version (Some 0)]\<rparr>)
 \<and> get_driver_version mock_driver failed_open_context mock_world =
     (Inr (2, 4),
      \<lparr>drv_state = \<lparr>m_mapped = False, m_size = 0\<rparr>,
       trace = [Call_driver_get_version (Some 0)]\<rparr>)
 \<and> fst (get_driver_version D failed_open_context w) \<noteq> Inl NotOpenError
 \<and> trace (snd (get_driver_version D failed_open_context w)) =
     trace w @ [Call_driver_get_version (Some 0)]
 \<and> \<not> truthy_ptr (c_handle GDRCopy_init)
 \<and> get_driver_version D GDRCopy_init w = (Inl TypeError, w)"
proof -
  have c: "c_handle failed_open_context = Some 0"
    by (simp add: failed_open_context_def)
  obtain ret major minor s where
    o: "gdr_driver_get_version D (c_handle failed_open_context) (drv_state w) =
          ((ret, major, minor), s)"
    by (metis prod.exhaust)
  have g1: "fst (get_driver_version D failed_open_context w) \<noteq> Inl NotOpenError"
    and g2: "trace (snd (get_driver_version D failed_open_context w)) =
       trace w @ [Call_driver_get_version (Some 0)]"
    using get_driver_version_with_pointer [OF c o]
    by (simp_all add: NotOpenError_def DriverError_not_RuntimeError c)
  have e: "GDRCopy_open (failing_driver 5) GDRCopy_init mock_world =
     (Inl (GDRError (- 1) ''Failed to open GDRCopy''), failed_open_context,
      \<lparr>drv_state = \<lparr>m_mapped = False, m_size = 0\<rparr>, trace = [Call_open]\<rparr>)"
    "\<not> truthy_ptr (c_handle failed_open_context)"
    "GDRCopy_get_attribute (failing_driver 5) failed_open_context 1
      \<lparr>drv_state = \<lparr>m_mapped = False, m_size = 0\<rparr>, trace = [Call_open]\<rparr> =
     (Inl NotOpenError, \<lparr>drv_state = \<lparr>m_mapped = False, m_size = 0\<rparr>, trace = [Call_open]\<rparr>)"
    by (simp_all add: open_when_closed get_attribute_when_closed GDRCopy_init_def
        failed_open_context_def truthy_ptr_def failing_driver_def mock_world_def)
  have v1: "get_driver_version (failing_driver 5) failed_open_context
      \<lparr>drv_state = \<lparr>m_mapped = False, m_size = 0\<rparr>, trace = [Call_open]\<rparr> =
     (Inl (GDRError 5 ''Failed to get driver version (error code: 5)''),
      \<lparr>drv_state = \<lparr>m_mapped = False, m_size = 0\<rparr>,
       trace = [Call_open, Call_driver_get_version (Some 0)]\<rparr>)"
    by (simp add: get_driver_version_def call_native_def invoke_def check_error_def
        GDRError_init_def str_int_def failed_open_context_def failing_driver_def)
  have v2: "get_driver_version mock_driver failed_open_context mock_world =
     (Inr (2, 4),
      \<lparr>drv_state = \<lparr>m_mapped = False, m_size = 0\<rparr>,
       trace = [Call_driver_get_version (Some 0)]\<rparr>)"
    by (simp add: get_driver_version_def call_native_def invoke_def check_error_def
        failed_open_context_def mock_driver_def mock_world_def)
  have n: "\<not> truthy_ptr (c_handle GDRCopy_init)"
    "get_driver_version D GDRCopy_init w = (Inl TypeError, w)"
    by (simp_all add: get_driver_version_with_None GDRCopy_init_def truthy_ptr_None)
  from e v1 v2 g1 g2 n show ?thesis by simp
qed

subsection \<open>C9: teardown\<close>

text \<open>
  Claim C9 fails in the code. \<^verbatim>\<open>GDRHandle.__del__\<close> calls \<^verbatim>\<open>unmap\<close> and then
  \<^verbatim>\<open>unpin\<close> with no handler around either, so an exception of \<^verbatim>\<open>unmap\<close> ends the
  hook before \<^verbatim>\<open>unpin\<close>. On the handle that \<^verbatim>\<open>map(4096)\<close> produced, with a driver
  whose \<^verbatim>\<open>gdr_unmap\<close> fails with status 5, \<^verbatim>\<open>__del__\<close> raises the \<^verbatim>\<open>GDRError\<close>
  of \<^verbatim>\<open>unmap\<close>; at collection the interpreter discards it, and the handle is left with
  its pin token, the trace holding the unmap call only: the buffer was never unpinned. And
  when the owning context was closed before the handle is collected, \<^verbatim>\<open>__del__\<close> raises
  the binding's \<^verbatim>\<open>TypeError\<close> at \<^verbatim>\<open>unmap\<close> and releases nothing: the handle stays
  mapped and pinned, and no driver call is made.
\<close>

theorem teardown_skips_unpin_after_failed_unmap:
  "GDRHandle_map unmap_failing_driver open_context 4096 (GDRHandle_init 1) mock_world =
     (Inr 139637976731648, mapped_handle,
      \<lparr>drv_state = \<lparr>m_mapped = True, m_size = 4096\<rparr>,
       trace = [Call_map (Some 1) (Some 1) 4096]\<rparr>)
 \<and> GDRHandle_del unmap_failing_driver open_context mapped_handle mapped_world =
     (Inl (GDRError 5 ''Failed to unmap buffer (error code: 5)''),
      \<lparr>h_handle = Some 1, h_mapped_ptr = None, h_mapped_size = 0, h_info = None\<rparr>,
      \<lparr>drv_state = \<lparr>m_mapped = True, m_size = 4096\<rparr>,
       trace = [Call_unmap (Some 1) (Some 1) (Some 0x7F0000001000) 4096]\<rparr>)
 \<and> GDRHandle_collected unmap_failing_driver open_context mapped_handle mapped_world =
     (\<lparr>h_handle = Some 1, h_mapped_ptr = None, h_mapped_size = 0, h_info = None\<rparr>,
      \<lparr>drv_state = \<lparr>m_mapped = True, m_size = 4096\<rparr>,
       trace = [Call_unmap (Some 1) (Some 1) (Some 0x7F0000001000) 4096]\<rparr>)
 \<and> truthy_struct (Some (1 :: gdr_mh_t))
 \<and> GDRHandle_del mock_driver closed_context mapped_handle
      \<lparr>drv_state = \<lparr>m_mapped = True, m_size = 4096\<rparr>, trace = [Call_close (Some 1)]\<rparr> =
     (Inl TypeError, mapped_handle,
      \<lparr>drv_state = \<lparr>m_mapped = True, m_size = 4096\<rparr>, trace = [Call_close (Some 1)]\<rparr>)
 \<and> GDRHandle_collected mock_driver closed_context mapped_handle
      \<lparr>drv_state = \<lparr>m_mapped = True, m_size = 4096\<rparr>, trace = [Call_close (Some 1)]\<rparr> =
     (mapped_handle,
      \<lparr>drv_state = \<lparr>m_mapped = True, m_size = 4096\<rparr>, trace = [Call_close (Some 1)]\<rparr>)"
  by (simp add: GDRHandle_collected_def GDRHandle_del_def GDRHandle_map_def GDRHandle_unmap_def
      GDRHandle_unpin_def GDRHandle_init_def call_native_def invoke_def check_error_def
      GDRError_init_def str_int_def fits_unsigned_def truthy_ptr_def truthy_struct_def
      unmap_failing_driver_def mock_driver_def open_context_def closed_context_def
      mapped_handle_def mapped_world_def mock_world_def)

subsection \<open>C10: a failed map changes nothing\<close>

text \<open>
  Claim C10. On an unmapped handle with the pin token, an open owner and a size that is a
  \<^verbatim>\<open>size_t\<close>, when \<^verbatim>\<open>gdr_map\<close> returns a non-zero status, \<^verbatim>\<open>map\<close> raises the
  driver error and the handle is exactly as before: it is still unmapped, on a handle fresh
  from a pin no address and the size 0 are recorded, and the next \<^verbatim>\<open>map\<close> is not
  rejected with the already-mapped error.
\<close>

theorem map_failure_atomic:
  assumes "\<not> truthy_ptr (h_mapped_ptr h)"
      and "c_handle g = Some c" and "h_handle h = Some m" and "fits_unsigned 64 sz"
      and "gdr_map D (c_handle g) (h_handle h) sz (drv_state w) = ((ret, p), s)"
      and "ret \<noteq> 0"
      and "GDRHandle_map D g sz h w = (r, h', w')"
  shows "r = Inl (DriverError ret ''Failed to map buffer'')
       \<and> h' = h
       \<and> w' = \<lparr>drv_state = s, trace = trace w @ [Call_map (c_handle g) (h_handle h) sz]\<rparr>
       \<and> \<not> truthy_ptr (h_mapped_ptr h')
       \<and> (h = GDRHandle_init mh \<longrightarrow> h_mapped_ptr h' = None \<and> h_mapped_size h' = 0)
       \<and> fst (GDRHandle_map D g sz_next h' w') \<noteq> Inl AlreadyMappedError"
proof -
  have "GDRHandle_map D g sz h w =
          (Inl (DriverError ret ''Failed to map buffer''), h,
           \<lparr>drv_state = s, trace = trace w @ [Call_map (c_handle g) (h_handle h) sz]\<rparr>)"
    using assms(6) by (simp add: map_when_unmapped [OF assms(1-5)])
  with assms(7) have r: "r = Inl (DriverError ret ''Failed to map buffer'')" and h': "h' = h"
    and w': "w' = \<lparr>drv_state = s, trace = trace w @ [Call_map (c_handle g) (h_handle h) sz]\<rparr>"
    by auto
  from h' assms(1) have un: "\<not> truthy_ptr (h_mapped_ptr h')" by simp
  then have "fst (GDRHandle_map D g sz_next h' w') \<noteq> Inl AlreadyMappedError"
    by (rule map_never_already_mapped_when_unmapped)
  with r h' w' un show ?thesis
    by (simp add: GDRHandle_init_def)
qed

text \<open>
The theorem on a fresh handle with a driver whose \<^verbatim>\<open>gdr_map\<close> fails.
\<close>

theorem map_failure_atomic_witness:
  "\<not> truthy_ptr (h_mapped_ptr (GDRHandle_init 1))
 \<and> c_handle open_context = Some 1 \<and> h_handle (GDRHandle_init 1) = Some 1
 \<and> fits_unsigned 64 4096
 \<and> gdr_map (failing_driver 5) (c_handle open_context) (h_handle (GDRHandle_init 1)) 4096
      (drv_state mock_world) = ((5, 0), drv_state mock_world)
 \<and> (5::int) \<noteq> 0
 \<and> GDRHandle_map (failing_driver 5) open_context 4096 (GDRHandle_init 1) mock_world =
     (Inl (DriverError 5 ''Failed to map buffer''), GDRHandle_init 1,
      \<lparr>drv_state = drv_state mock_world, trace = [Call_map (Some 1) (Some 1) 4096]\<rparr>)
 \<and> h_mapped_ptr (GDRHandle_init 1) = None \<and> h_mapped_size (GDRHandle_init 1) = 0
 \<and> fst (GDRHandle_map (failing_driver 5) open_context 4096 (GDRHandle_init 1)
          \<lparr>drv_state = drv_state mock_world, trace = [Call_map (Some 1) (Some 1) 4096]\<rparr>)
      \<noteq> Inl AlreadyMappedError"
proof -
  let ?w = "\<lparr>drv_state = drv_state mock_world, trace = [Call_map (Some 1) (Some 1) 4096]\<rparr>"
  have c: "c_handle open_context = Some 1" by (simp add: open_context_def)
  have t: "h_handle (GDRHandle_init 1) = Some 1" by (simp add: GDRHandle_init_def)
  have z: "fits_unsigned 64 4096" by (simp add: fits_unsigned_def)
  have m: "gdr_map (failing_driver 5) (c_handle open_context) (h_handle (GDRHandle_init 1)) 4096
      (drv_state mock_world) = ((5, 0), drv_state mock_world)"
    by (simp add: failing_driver_def)
  have f: "(5::int) \<noteq> 0" by simp
  have r: "GDRHandle_map (failing_driver 5) open_context 4096 (GDRHandle_init 1) mock_world =
     (Inl (DriverError 5 ''Failed to map buffer''), GDRHandle_init 1, ?w)"
    using map_when_unmapped [OF fresh_handle_unmapped c t z m]
    by (simp add: open_context_def GDRHandle_init_def mock_world_def)
  show ?thesis
    using map_failure_atomic [OF fresh_handle_unmapped c t z m f r, where mh = 1 and sz_next = 4096]
      fresh_handle_unmapped [of 1] c t z m r
    by (simp add: open_context_def GDRHandle_init_def mock_world_def)
qed

end
